theory Spec2Isabelle
  imports Complex_Main
begin

section \<open>The rule-based chatbot (chatbot.py)\<close>

text \<open>
  \<^verbatim>\<open>LabMateChatbot.__init__\<close> builds two dictionaries. Python dictionaries keep
  insertion order and \<^verbatim>\<open>_classify_intent\<close> walks \<^verbatim>\<open>knowledge_base.items()\<close>
  in that order, so both are association lists here.
\<close>

definition knowledge_base :: "(string \<times> string list) list" where
  "knowledge_base =
     [(''greetings'',
         [''hello'', ''hi'', ''hey'', ''good morning'', ''good afternoon'', ''good evening'']),
      (''calculations'',
         [''calculate'', ''how much'', ''mass'', ''molarity'', ''volume'', ''concentration'']),
      (''chemicals'',
         [''chemical'', ''reagent'', ''compound'', ''substance'', ''molecule'']),
      (''safety'',
         [''safety'', ''hazard'', ''dangerous'', ''toxic'', ''corrosive'', ''flammable'']),
      (''experiments'',
         [''experiment'', ''procedure'', ''protocol'', ''method'', ''lab work'']),
      (''help'',
         [''help'', ''what can you do'', ''assist'', ''support'', ''guide''])]"

definition responses :: "(string \<times> string list) list" where
  "responses =
     [(''greeting'',
         [''Hello! I'm LabMate AI, your intelligent laboratory assistant. How can I help you today?'',
          ''Hi there! I'm here to assist you with laboratory calculations, chemical information, and safety guidance.'',
          ''Welcome! I can help you with chemical calculations, MSDS lookups, experiment planning, and safety protocols.'']),
      (''calculation_help'',
         [''I can help you calculate reagent masses for specific molarities and volumes. Just tell me the chemical name, desired molarity, and volume.'',
          ''For calculations, I need: 1) Chemical name, 2) Desired molarity (M), 3) Volume (mL). Example: 'Calculate 0.1M NaCl for 100mL'' @ [CHR 0x27]]),
      (''chemical_info'',
         [''I have information about common laboratory chemicals including their formulas, molar masses, and safety hazards.'',
          ''You can ask me about chemical properties, safety information, or search for specific compounds in our database.'']),
      (''safety_info'',
         [''I can provide safety information about chemicals, including hazard classifications and handling precautions.'',
          ''Always follow proper safety protocols when working with chemicals. I can help you identify potential hazards.'']),
      (''experiment_help'',
         [''I can help you plan experiments, suggest procedures, and provide guidance on laboratory techniques.'',
          ''Tell me about your experiment goals and I can help you design a safe and effective procedure.'']),
      (''default'',
         [''I'm not sure I understand. Could you rephrase your question? I can help with calculations, chemical information, safety, or experiments.'',
          ''I'm here to help with laboratory-related questions. Try asking about calculations, chemicals, safety, or experiments.''])]"

text \<open>
  \<^verbatim>\<open>keyword in message\<close> on two strings is the substring test: the keyword is a
  prefix of some suffix of the message.
\<close>

fun py_in :: "string \<Rightarrow> string \<Rightarrow> bool" where
  "py_in k [] = (k = [])"
| "py_in k (c # cs) = (take (length k) (c # cs) = k \<or> py_in k cs)"

text \<open>
  \<^verbatim>\<open>message.lower()\<close> for a message of ASCII characters, where it maps the
  letters A to Z and nothing else. A \<^typ>\<open>char\<close> is a byte, so a message with
  characters outside ASCII is not covered: there \<^verbatim>\<open>str.lower()\<close> also maps code
  points such as the Kelvin sign to ASCII letters. The dispatch properties below rest
  only on the range of \<^verbatim>\<open>_classify_intent\<close>, which is the same for every
  lower-casing function.
\<close>

definition lower_char :: "char \<Rightarrow> char" where
  "lower_char c =
     (case map_of (zip ''ABCDEFGHIJKLMNOPQRSTUVWXYZ'' ''abcdefghijklmnopqrstuvwxyz'') c of
        Some l \<Rightarrow> l
      | None \<Rightarrow> c)"

definition lower :: "string \<Rightarrow> string" where
  "lower s = map lower_char s"

text \<open>
  \<^verbatim>\<open>
  def _classify_intent(self, message):
      for intent, keywords in self.knowledge_base.items():
          if any(keyword in message for keyword in keywords):
              return intent
      return 'default'
  \<close>
  The loop over the items is a recursion over the association list.
\<close>

fun classify_items :: "(string \<times> string list) list \<Rightarrow> string \<Rightarrow> string" where
  "classify_items [] message = ''default''"
| "classify_items ((intent, keywords) # items) message =
     (if list_ex (\<lambda>keyword. py_in keyword message) keywords then intent
      else classify_items items message)"

definition classify_intent :: "string \<Rightarrow> string" where
  "classify_intent message = classify_items knowledge_base message"

text \<open>
  \<^verbatim>\<open>
  def _get_random_response(self, response_type):
      responses = self.responses.get(response_type, self.responses['default'])
      return random.choice(responses)
  \<close>
  \<^verbatim>\<open>random.choice\<close> returns the element at a random index below the length; the
  draw is the argument \<open>pick\<close>. The key \<^verbatim>\<open>'default'\<close> is present, so the
  subscript \<^verbatim>\<open>self.responses['default']\<close> does not raise, and no list is empty.
\<close>

definition default_responses :: "string list" where
  "default_responses = (case map_of responses ''default'' of Some rs \<Rightarrow> rs | None \<Rightarrow> [])"

definition get_random_response :: "string \<Rightarrow> nat \<Rightarrow> string" where
  "get_random_response response_type pick =
     (let rs = (case map_of responses response_type of Some rs \<Rightarrow> rs
                | None \<Rightarrow> default_responses)
      in rs ! (pick mod length rs))"

text \<open>
  The reply of \<^verbatim>\<open>process_message\<close>: either the text of a canned response, or the
  result of one of the five handlers, which is recorded as the handler that was called
  with the original message (the handlers read the chemical database and the database
  session, which are not part of this development; \<^verbatim>\<open>user_id\<close> and
  \<^verbatim>\<open>db_session\<close> are only handed on to them). \<open>pick\<close> is the draw of
  \<^verbatim>\<open>random.choice\<close>.
\<close>

datatype reply =
    Handle_calculation string
  | Handle_chemical_info string
  | Handle_safety_info string
  | Handle_experiment_help string
  | Handle_help_request
  | Canned string

text \<open>
  \<^verbatim>\<open>
  def process_message(self, message, user_id, db_session):
      message_lower = message.lower()
      intent = self._classify_intent(message_lower)
      if intent == 'calculation':
          return self._handle_calculation(message, user_id, db_session)
      elif intent == 'chemical_info':
          return self._handle_chemical_info(message, user_id, db_session)
      elif intent == 'safety':
          return self._handle_safety_info(message, user_id, db_session)
      elif intent == 'experiment':
          return self._handle_experiment_help(message, user_id, db_session)
      elif intent == 'greeting':
          return self._get_random_response('greeting')
      elif intent == 'help':
          return self._handle_help_request()
      else:
          return self._get_random_response('default')
  \<close>
\<close>

definition process_message :: "string \<Rightarrow> nat \<Rightarrow> reply" where
  "process_message message pick =
     (let message_lower = lower message;
          intent = classify_intent message_lower
      in if intent = ''calculation'' then Handle_calculation message
         else if intent = ''chemical_info'' then Handle_chemical_info message
         else if intent = ''safety'' then Handle_safety_info message
         else if intent = ''experiment'' then Handle_experiment_help message
         else if intent = ''greeting'' then Canned (get_random_response ''greeting'' pick)
         else if intent = ''help'' then Handle_help_request
         else Canned (get_random_response ''default'' pick))"

section \<open>Python values used by fluid\_calculate (routes.py)\<close>

text \<open>
  \<^verbatim>\<open>request.get_json()\<close> returns what Python's \<^verbatim>\<open>json\<close> module parses: \<^verbatim>\<open>None\<close>,
  a \<^verbatim>\<open>bool\<close>, an \<^verbatim>\<open>int\<close> of any size, a \<^verbatim>\<open>float\<close>, a \<^verbatim>\<open>str\<close>, a \<^verbatim>\<open>list\<close> or a
  \<^verbatim>\<open>dict\<close> with string keys. The parser accepts the literals \<^verbatim>\<open>Infinity\<close>,
  \<^verbatim>\<open>-Infinity\<close> and \<^verbatim>\<open>NaN\<close> (and reads \<^verbatim>\<open>1e999\<close> as infinity), so a float is a
  finite number, one of the two infinities, or not-a-number. A \<^verbatim>\<open>dict\<close> is the list
  of its items in insertion order (its keys distinct). A \<^verbatim>\<open>str\<close> is the list of its
  characters, taken to be ASCII: a \<^typ>\<open>char\<close> is a byte, so for a string with
  other characters \<open>py_len\<close>, \<open>py_iter\<close> and \<open>py_subscript\<close> below would count
  bytes where Python counts code points.
\<close>

datatype pyfloat = Fin real | PInf | NInf | NaN

datatype json =
    JNull
  | JBool bool
  | JInt int
  | JFloat pyfloat
  | JStr string
  | JArr "json list"
  | JObj "(string \<times> json) list"

text \<open>
  The exception classes that the built-ins below raise; \<open>Raised msg\<close> is an exception
  raised by a collaborator (\<^verbatim>\<open>request.get_json\<close>, \<^verbatim>\<open>process_experiment_data\<close>), of any
  class derived from \<^verbatim>\<open>Exception\<close>.
\<close>

datatype exn =
    TypeError
  | ValueError
  | IndexError
  | KeyError
  | AttributeError
  | OverflowError
  | Raised string

text \<open>Truth value testing, as \<^verbatim>\<open>not x\<close> uses it.\<close>

fun truthy :: "json \<Rightarrow> bool" where
  "truthy JNull = False"
| "truthy (JBool b) = b"
| "truthy (JInt i) = (i \<noteq> 0)"
| "truthy (JFloat f) = (f \<noteq> Fin 0)"
| "truthy (JStr s) = (s \<noteq> [])"
| "truthy (JArr xs) = (xs \<noteq> [])"
| "truthy (JObj kvs) = (kvs \<noteq> [])"

text \<open>\<^verbatim>\<open>len(x)\<close>: a TypeError on a value that has no length.\<close>

fun py_len :: "json \<Rightarrow> exn + nat" where
  "py_len (JStr s) = Inr (length s)"
| "py_len (JArr xs) = Inr (length xs)"
| "py_len (JObj kvs) = Inr (length kvs)"
| "py_len JNull = Inl TypeError"
| "py_len (JBool b) = Inl TypeError"
| "py_len (JInt i) = Inl TypeError"
| "py_len (JFloat f) = Inl TypeError"

text \<open>
  Iteration (\<^verbatim>\<open>for r in x\<close>, \<^verbatim>\<open>tuple(x)\<close>): the elements of a list, the characters of
  a string as one-character strings, the keys of a dict; a TypeError otherwise.
\<close>

fun py_iter :: "json \<Rightarrow> exn + json list" where
  "py_iter (JArr xs) = Inr xs"
| "py_iter (JStr s) = Inr (map (\<lambda>c. JStr [c]) s)"
| "py_iter (JObj kvs) = Inr (map (\<lambda>kv. JStr (fst kv)) kvs)"
| "py_iter JNull = Inl TypeError"
| "py_iter (JBool b) = Inl TypeError"
| "py_iter (JInt i) = Inl TypeError"
| "py_iter (JFloat f) = Inl TypeError"

text \<open>
  The subscript \<^verbatim>\<open>r[i]\<close> with a non-negative integer literal \<open>i\<close>: an IndexError past
  the end of a list or a string; a KeyError on a dict (its keys are strings, never the
  integer); a TypeError on a value that is not subscriptable.
\<close>

fun py_subscript :: "json \<Rightarrow> nat \<Rightarrow> exn + json" where
  "py_subscript (JArr xs) i = (if i < length xs then Inr (xs ! i) else Inl IndexError)"
| "py_subscript (JStr s) i = (if i < length s then Inr (JStr [s ! i]) else Inl IndexError)"
| "py_subscript (JObj kvs) i = Inl KeyError"
| "py_subscript JNull i = Inl TypeError"
| "py_subscript (JBool b) i = Inl TypeError"
| "py_subscript (JInt n) i = Inl TypeError"
| "py_subscript (JFloat f) i = Inl TypeError"

text \<open>
  \<^verbatim>\<open>float(n)\<close> of an \<^verbatim>\<open>int\<close> rounds to the nearest double (53 significant bits, ties
  to even) and raises OverflowError when the rounded value does not fit, that is when
  it reaches \<open>2 ^ 1024\<close>.
\<close>

fun bit_length :: "nat \<Rightarrow> nat" where
  "bit_length n = (if n = 0 then 0 else Suc (bit_length (n div 2)))"

declare bit_length.simps [simp del]

definition round_to_53_bits :: "nat \<Rightarrow> nat" where
  "round_to_53_bits m =
     (let n = bit_length m
      in if n \<le> 53 then m
         else
           (let sh = n - 53;
                q = m div 2 ^ sh;
                r = m mod 2 ^ sh;
                half = 2 ^ (sh - 1);
                q' = (if half < r \<or> (r = half \<and> odd q) then q + 1 else q)
            in q' * 2 ^ sh))"

definition int_to_float :: "int \<Rightarrow> exn + pyfloat" where
  "int_to_float i =
     (let m = round_to_53_bits (nat \<bar>i\<bar>)
      in if 2 ^ 1024 \<le> m then Inl OverflowError
         else Inr (Fin (if i < 0 then - real m else real m)))"

text \<open>
  \<^verbatim>\<open>float(x)\<close>. On a string the interpreter's parser decides; it is the argument
  \<open>float_of_str\<close>, with \<open>None\<close> for the ValueError of a string that is not a number.
  \<^verbatim>\<open>None\<close>, lists and dicts raise a TypeError; a \<^verbatim>\<open>bool\<close> is an \<^verbatim>\<open>int\<close>.
\<close>

fun py_float :: "(string \<Rightarrow> pyfloat option) \<Rightarrow> json \<Rightarrow> exn + pyfloat" where
  "py_float float_of_str JNull = Inl TypeError"
| "py_float float_of_str (JBool b) = Inr (Fin (if b then 1 else 0))"
| "py_float float_of_str (JInt i) = int_to_float i"
| "py_float float_of_str (JFloat f) = Inr f"
| "py_float float_of_str (JStr s) =
     (case float_of_str s of None \<Rightarrow> Inl ValueError | Some f \<Rightarrow> Inr f)"
| "py_float float_of_str (JArr xs) = Inl TypeError"
| "py_float float_of_str (JObj kvs) = Inl TypeError"

text \<open>
  \<^verbatim>\<open>data.get(key, default)\<close>: only a dict has the method; on any other value the
  attribute lookup raises AttributeError.
\<close>

fun py_get :: "json \<Rightarrow> string \<Rightarrow> json \<Rightarrow> exn + json" where
  "py_get (JObj kvs) key dflt = Inr (case map_of kvs key of Some v \<Rightarrow> v | None \<Rightarrow> dflt)"
| "py_get JNull key dflt = Inl AttributeError"
| "py_get (JBool b) key dflt = Inl AttributeError"
| "py_get (JInt i) key dflt = Inl AttributeError"
| "py_get (JFloat f) key dflt = Inl AttributeError"
| "py_get (JStr s) key dflt = Inl AttributeError"
| "py_get (JArr xs) key dflt = Inl AttributeError"

text \<open>\<^verbatim>\<open>result[key]\<close> on the dict that the pipeline returns: a KeyError on a missing key.\<close>

definition py_item :: "(string \<times> json) list \<Rightarrow> string \<Rightarrow> exn + json" where
  "py_item d key = (case map_of d key of None \<Rightarrow> Inl KeyError | Some v \<Rightarrow> Inr v)"

text \<open>The decimal digits of a natural number, as an f-string prints \<^verbatim>\<open>len(...)\<close>.\<close>

fun string_of_nat :: "nat \<Rightarrow> string" where
  "string_of_nat n =
     (if n < 10 then [''0123456789'' ! n]
      else string_of_nat (n div 10) @ [''0123456789'' ! (n mod 10)])"

declare string_of_nat.simps [simp del]

section \<open>The route fluid\_calculate (routes.py)\<close>

text \<open>
  What the route reads: the session (only the key \<^verbatim>\<open>user_id\<close>) and the result of
  \<^verbatim>\<open>request.get_json()\<close>, which is the parsed body or an exception.
\<close>

record request =
  session_user_id :: "nat option"
  get_json :: "exn + json"

type_synonym reading = "pyfloat \<times> pyfloat"

text \<open>
  The collaborators of the route that are not part of routes.py: the interpreter's
  parser behind \<^verbatim>\<open>float(str)\<close>, and \<^verbatim>\<open>fluid_mechanics.process_experiment_data\<close>,
  which takes the two converted reading lists, the label tuple and the constants
  override and returns a dict or raises.
\<close>

record env =
  float_of_str :: "string \<Rightarrow> pyfloat option"
  process_experiment_data ::
    "reading list \<Rightarrow> reading list \<Rightarrow> json list \<Rightarrow> json \<Rightarrow> exn + (string \<times> json) list"

text \<open>
  What the route writes: rows of \<^verbatim>\<open>ActivityLog\<close> and of \<^verbatim>\<open>Calculation\<close>, added to
  the database session and committed (the database is taken to accept every commit).
  \<open>pipeline_calls\<close> records the arguments of every call of
  \<^verbatim>\<open>process_experiment_data\<close>, so that "no computation is attempted" can be stated.
\<close>

record activity_log =
  log_user_id :: nat
  action_type :: string
  description :: string

record calculation =
  calc_user_id :: nat
  reagent :: string
  formula :: string
  molarity :: int
  volume :: int
  mass_needed :: json

record app_state =
  activity_logs :: "activity_log list"
  calculations :: "calculation list"
  pipeline_calls :: "(reading list \<times> reading list \<times> json list \<times> json) list"

text \<open>
  \<^verbatim>\<open>
  def log_activity(user_id, action_type, description):
      activity = ActivityLog(user_id=user_id, action_type=action_type,
                             description=description)
      db.session.add(activity)
      db.session.commit()
  \<close>
\<close>

definition log_activity :: "nat \<Rightarrow> string \<Rightarrow> string \<Rightarrow> app_state \<Rightarrow> app_state" where
  "log_activity uid atype descr st =
     st\<lparr>activity_logs := activity_logs st @
          [\<lparr>log_user_id = uid, action_type = atype, description = descr\<rparr>]\<rparr>"

text \<open>
  A response is a redirect to a named endpoint, or \<^verbatim>\<open>jsonify(dict)\<close> with a status
  code. A value of the dict is a \<^verbatim>\<open>bool\<close>, a string literal, \<^verbatim>\<open>str(e)\<close> of a caught
  exception, or a value taken from the pipeline's result.
\<close>

datatype body_value =
    Bool_value bool
  | Str_value string
  | Str_of_exn exn
  | Json_value json

datatype response =
    Redirect string
  | Jsonify "(string \<times> body_value) list" nat

definition error_response :: "body_value \<Rightarrow> response" where
  "error_response msg = Jsonify [(''success'', Bool_value False), (''error'', msg)] 400"

text \<open>
  The body of the \<^verbatim>\<open>try\<close> block either raises (and the outer handler answers),
  returns a response early, or goes on with a value.
\<close>

datatype 'a flow = Raise exn | Return response | Proceed 'a

text \<open>
  \<^verbatim>\<open>
  data = request.get_json()
  orifice_readings = data.get('orifice_readings', [])
  pitot_readings = data.get('pitot_readings', [])
  graph_params = data.get('graph_params', ['V0', 'Vp'])
  custom_constants = data.get('constants', None)
  \<close>
\<close>

definition parse_input :: "exn + json \<Rightarrow> exn + (json \<times> json \<times> json \<times> json)" where
  "parse_input body =
     (case body of
        Inl e \<Rightarrow> Inl e
      | Inr data \<Rightarrow>
          (case py_get data ''orifice_readings'' (JArr []) of
             Inl e \<Rightarrow> Inl e
           | Inr orifice_readings \<Rightarrow>
               (case py_get data ''pitot_readings'' (JArr []) of
                  Inl e \<Rightarrow> Inl e
                | Inr pitot_readings \<Rightarrow>
                    (case py_get data ''graph_params'' (JArr [JStr ''V0'', JStr ''Vp'']) of
                       Inl e \<Rightarrow> Inl e
                     | Inr graph_params \<Rightarrow>
                         (case py_get data ''constants'' JNull of
                            Inl e \<Rightarrow> Inl e
                          | Inr custom_constants \<Rightarrow>
                              Inr (orifice_readings, pitot_readings, graph_params,
                                   custom_constants))))))"

text \<open>
  One element of the comprehension, \<^verbatim>\<open>(float(r[0]), float(r[1]))\<close>, evaluated left to
  right, and the comprehension \<^verbatim>\<open>[... for r in readings]\<close>, which stops at the first
  element that raises.
\<close>

definition convert_reading :: "(string \<Rightarrow> pyfloat option) \<Rightarrow> json \<Rightarrow> exn + reading" where
  "convert_reading fos r =
     (case py_subscript r 0 of
        Inl e \<Rightarrow> Inl e
      | Inr a \<Rightarrow>
          (case py_float fos a of
             Inl e \<Rightarrow> Inl e
           | Inr x \<Rightarrow>
               (case py_subscript r 1 of
                  Inl e \<Rightarrow> Inl e
                | Inr b \<Rightarrow>
                    (case py_float fos b of
                       Inl e \<Rightarrow> Inl e
                     | Inr y \<Rightarrow> Inr (x, y)))))"

fun convert_all :: "(string \<Rightarrow> pyfloat option) \<Rightarrow> json list \<Rightarrow> exn + reading list" where
  "convert_all fos [] = Inr []"
| "convert_all fos (r # rs) =
     (case convert_reading fos r of
        Inl e \<Rightarrow> Inl e
      | Inr p \<Rightarrow>
          (case convert_all fos rs of
             Inl e \<Rightarrow> Inl e
           | Inr ps \<Rightarrow> Inr (p # ps)))"

definition convert_readings :: "(string \<Rightarrow> pyfloat option) \<Rightarrow> json \<Rightarrow> exn + reading list" where
  "convert_readings fos readings =
     (case py_iter readings of
        Inl e \<Rightarrow> Inl e
      | Inr rs \<Rightarrow> convert_all fos rs)"

text \<open>
  \<^verbatim>\<open>
  except (ValueError, TypeError, IndexError) as e:
      return jsonify({'success': False,
          'error': 'Invalid reading format. All values must be numbers.'}), 400
  \<close>
  Any other exception leaves the inner \<^verbatim>\<open>try\<close> and reaches the outer handler.
\<close>

definition invalid_format :: "exn \<Rightarrow> (reading list \<times> reading list) flow" where
  "invalid_format e =
     (if e = ValueError \<or> e = TypeError \<or> e = IndexError
      then Return (error_response
             (Str_value ''Invalid reading format. All values must be numbers.''))
      else Raise e)"

text \<open>
  \<^verbatim>\<open>
  if not orifice_readings or not pitot_readings:
      return jsonify({'success': False, 'error': 'No readings provided'}), 400
  if len(orifice_readings) != len(pitot_readings):
      return jsonify({'success': False,
          'error': 'Mismatched number of orifice and pitot readings'}), 400
  try:
      orifice_readings = [(float(r[0]), float(r[1])) for r in orifice_readings]
      pitot_readings = [(float(r[0]), float(r[1])) for r in pitot_readings]
  except (ValueError, TypeError, IndexError) as e:
      return ...
  \<close>
\<close>

definition validate_readings ::
    "(string \<Rightarrow> pyfloat option) \<Rightarrow> json \<Rightarrow> json \<Rightarrow> (reading list \<times> reading list) flow" where
  "validate_readings fos orifice_readings pitot_readings =
     (if \<not> truthy orifice_readings \<or> \<not> truthy pitot_readings
      then Return (error_response (Str_value ''No readings provided''))
      else
        (case py_len orifice_readings of
           Inl e \<Rightarrow> Raise e
         | Inr n \<Rightarrow>
             (case py_len pitot_readings of
                Inl e \<Rightarrow> Raise e
              | Inr m \<Rightarrow>
                  if n \<noteq> m
                  then Return (error_response
                         (Str_value ''Mismatched number of orifice and pitot readings''))
                  else
                    (case convert_readings fos orifice_readings of
                       Inl e \<Rightarrow> invalid_format e
                     | Inr os \<Rightarrow>
                         (case convert_readings fos pitot_readings of
                            Inl e \<Rightarrow> invalid_format e
                          | Inr ps \<Rightarrow> Proceed (os, ps))))))"

text \<open>
  \<^verbatim>\<open>
  result = process_experiment_data(orifice_readings, pitot_readings,
                                   tuple(graph_params), custom_constants)
  log_activity(session['user_id'], 'Fluid Calculation',
               f'Pitot Tube experiment with {len(orifice_readings)} readings')
  calculation = Calculation(user_id=session['user_id'],
      reagent='Pitot Tube Experiment', formula='Cv = V0/Vp',
      molarity=0, volume=0, mass_needed=result['mean_cv'])
  db.session.add(calculation)
  db.session.commit()
  return jsonify({'success': True, 'results': result['results'],
      'mean_cv': result['mean_cv'],
      'model_calculation': result['model_calculation'],
      'graph_base64': result['graph_base64'],
      'pdf_base64': result['pdf_base64']})
  \<close>
  An exception leaves the state as it is at that point: what was committed stays.
\<close>

definition success_response :: "(string \<times> json) list \<Rightarrow> exn + response" where
  "success_response result =
     (case py_item result ''results'' of
        Inl e \<Rightarrow> Inl e
      | Inr results \<Rightarrow>
          (case py_item result ''mean_cv'' of
             Inl e \<Rightarrow> Inl e
           | Inr mean_cv \<Rightarrow>
               (case py_item result ''model_calculation'' of
                  Inl e \<Rightarrow> Inl e
                | Inr model_calculation \<Rightarrow>
                    (case py_item result ''graph_base64'' of
                       Inl e \<Rightarrow> Inl e
                     | Inr graph_base64 \<Rightarrow>
                         (case py_item result ''pdf_base64'' of
                            Inl e \<Rightarrow> Inl e
                          | Inr pdf_base64 \<Rightarrow>
                              Inr (Jsonify
                                [(''success'', Bool_value True),
                                 (''results'', Json_value results),
                                 (''mean_cv'', Json_value mean_cv),
                                 (''model_calculation'', Json_value model_calculation),
                                 (''graph_base64'', Json_value graph_base64),
                                 (''pdf_base64'', Json_value pdf_base64)] 200))))))"

definition process_and_store ::
    "env \<Rightarrow> nat \<Rightarrow> reading list \<Rightarrow> reading list \<Rightarrow> json \<Rightarrow> json \<Rightarrow> app_state
       \<Rightarrow> (exn + response) \<times> app_state" where
  "process_and_store ev uid orifice_readings pitot_readings graph_params custom_constants st =
     (case py_iter graph_params of
        Inl e \<Rightarrow> (Inl e, st)
      | Inr labels \<Rightarrow>
          (let st1 = st\<lparr>pipeline_calls := pipeline_calls st @
                        [(orifice_readings, pitot_readings, labels, custom_constants)]\<rparr>
           in case process_experiment_data ev orifice_readings pitot_readings labels
                     custom_constants of
                Inl e \<Rightarrow> (Inl e, st1)
              | Inr result \<Rightarrow>
                  (let st2 = log_activity uid ''Fluid Calculation''
                               (''Pitot Tube experiment with ''
                                  @ string_of_nat (length orifice_readings) @ '' readings'') st1
                   in case py_item result ''mean_cv'' of
                        Inl e \<Rightarrow> (Inl e, st2)
                      | Inr mean_cv \<Rightarrow>
                          (let calculation =
                                 \<lparr>calc_user_id = uid,
                                  reagent = ''Pitot Tube Experiment'',
                                  formula = ''Cv = V0/Vp'',
                                  molarity = 0,
                                  volume = 0,
                                  mass_needed = mean_cv\<rparr>;
                               st3 = st2\<lparr>calculations := calculations st2 @ [calculation]\<rparr>
                           in (success_response result, st3)))))"

text \<open>
  \<^verbatim>\<open>
  def fluid_calculate():
      if 'user_id' not in session:
          return redirect(url_for('login'))
      try:
          ...
      except Exception as e:
          return jsonify({'success': False, 'error': str(e)}), 400
  \<close>
\<close>

definition try_block :: "env \<Rightarrow> nat \<Rightarrow> request \<Rightarrow> app_state \<Rightarrow> (exn + response) \<times> app_state" where
  "try_block ev uid req st =
     (case parse_input (get_json req) of
        Inl e \<Rightarrow> (Inl e, st)
      | Inr (orifice_readings, pitot_readings, graph_params, custom_constants) \<Rightarrow>
          (case validate_readings (float_of_str ev) orifice_readings pitot_readings of
             Raise e \<Rightarrow> (Inl e, st)
           | Return resp \<Rightarrow> (Inr resp, st)
           | Proceed (os, ps) \<Rightarrow>
               process_and_store ev uid os ps graph_params custom_constants st))"

definition fluid_calculate :: "env \<Rightarrow> request \<Rightarrow> app_state \<Rightarrow> response \<times> app_state" where
  "fluid_calculate ev req st =
     (case session_user_id req of
        None \<Rightarrow> (Redirect ''login'', st)
      | Some uid \<Rightarrow>
          (case try_block ev uid req st of
             (Inl e, st') \<Rightarrow> (error_response (Str_of_exn e), st')
           | (Inr resp, st') \<Rightarrow> (resp, st')))"

section \<open>The stages behind process\_experiment\_data, from the specification\<close>

text \<open>
  Modelled from the spec: the physical constants of \<^verbatim>\<open>fluid_mechanics.py\<close>, which is
  not among the sources. The specification gives the recognised keys and their defaults,
  \<^verbatim>\<open>{g: 9.81, rho: 1000.0, Cd_orifice: 0.61, A_ratio: <orifice/pipe area ratio>}\<close>; it
  gives no number for \<^verbatim>\<open>A_ratio\<close>, which is the argument \<open>a_ratio\<close>.
\<close>

definition default_constants :: "real \<Rightarrow> (string \<times> json) list" where
  "default_constants a_ratio =
     [(''g'', JFloat (Fin (981 / 100))),
      (''rho'', JFloat (Fin 1000)),
      (''Cd_orifice'', JFloat (Fin (61 / 100))),
      (''A_ratio'', JFloat (Fin a_ratio))]"

text \<open>
  Modelled from the spec: the resolution of one constant in \<^verbatim>\<open>fluid_mechanics.py\<close>
  (not among the sources), "Caller may supply an override map; unspecified keys fall
  back to defaults". The override is the fourth argument of
  \<^verbatim>\<open>process_experiment_data\<close>: a dict, or \<^verbatim>\<open>None\<close> when the caller supplies none.
\<close>

definition physical_constant :: "real \<Rightarrow> json \<Rightarrow> string \<Rightarrow> json option" where
  "physical_constant a_ratio custom_constants key =
     (case custom_constants of
        JObj overrides \<Rightarrow>
          (case map_of overrides key of
             Some v \<Rightarrow> Some v
           | None \<Rightarrow> map_of (default_constants a_ratio) key)
      | _ \<Rightarrow> map_of (default_constants a_ratio) key)"

text \<open>
  Modelled from the spec: the calibration point and the errors of the discharge
  coefficient estimator of \<^verbatim>\<open>fluid_mechanics.py\<close> (not among the sources). A point
  is \<^verbatim>\<open>{orifice_velocity V0, pitot_velocity Vp, cv = V0/Vp}\<close>; the specification speaks
  of real numbers, and so does the model.
\<close>

record calibration_point =
  v0 :: real
  vp :: real
  cv :: real

datatype pipeline_error = InsufficientDataError

record estimate =
  est_results :: "calibration_point list"
  est_mean_cv :: real
  est_excluded :: nat

text \<open>
  Modelled from the spec: the discharge coefficient estimator of
  \<^verbatim>\<open>fluid_mechanics.py\<close> (not among the sources), section 4.3: "For each
  CalibrationPoint, cv\_i = V0\_i / Vp\_i; [...] excluding (not crashing) any point where
  Vp\_i == 0, and records the exclusion count. mean\_cv is the arithmetic mean of
  non-excluded cv\_i. Fails with InsufficientDataError if all points are excluded". The
  input is the list of the velocity pairs \<open>(V0, Vp)\<close> of the accepted reading set, in
  order; \<open>estimate_points\<close> is the pass over the points.
\<close>

fun estimate_points :: "(real \<times> real) list \<Rightarrow> calibration_point list \<times> nat" where
  "estimate_points [] = ([], 0)"
| "estimate_points ((V0, Vp) # rest) =
     (case estimate_points rest of
        (kept, excluded) \<Rightarrow>
          if Vp = 0 then (kept, Suc excluded)
          else (\<lparr>v0 = V0, vp = Vp, cv = V0 / Vp\<rparr> # kept, excluded))"

definition estimate_discharge :: "(real \<times> real) list \<Rightarrow> pipeline_error + estimate" where
  "estimate_discharge points =
     (case estimate_points points of
        (kept, excluded) \<Rightarrow>
          if kept = [] then Inl InsufficientDataError
          else Inr \<lparr>est_results = kept,
                    est_mean_cv = sum_list (map cv kept) / real (length kept),
                    est_excluded = excluded\<rparr>)"

section \<open>Properties of the chatbot\<close>

lemma classify_items_range:
  "classify_items items message \<in> insert ''default'' (set (map fst items))"
  by (induction items message rule: classify_items.induct) auto

lemma classify_intent_range:
  "classify_intent message \<in>
     {''default'', ''greetings'', ''calculations'', ''chemicals'', ''safety'',
      ''experiments'', ''help''}"
  using classify_items_range [of knowledge_base message]
  unfolding classify_intent_def knowledge_base_def by auto

lemma default_responses_nonempty: "default_responses \<noteq> []"
  by (simp add: default_responses_def responses_def)

lemma get_random_default_in:
  "get_random_response ''default'' pick \<in> set default_responses"
proof -
  have m: "map_of responses ''default'' = Some default_responses"
    by (simp add: default_responses_def responses_def)
  have "default_responses ! (pick mod length default_responses) \<in> set default_responses"
    using default_responses_nonempty by (intro nth_mem) simp
  then show ?thesis
    by (simp add: get_random_response_def m)
qed

lemma process_message_by_intent:
  "process_message message pick =
     (if classify_intent (lower message) = ''safety'' then Handle_safety_info message
      else if classify_intent (lower message) = ''help'' then Handle_help_request
      else Canned (get_random_response ''default'' pick))"
proof -
  define intent where "intent = classify_intent (lower message)"
  have pm: "process_message message pick =
     (if intent = ''calculation'' then Handle_calculation message
      else if intent = ''chemical_info'' then Handle_chemical_info message
      else if intent = ''safety'' then Handle_safety_info message
      else if intent = ''experiment'' then Handle_experiment_help message
      else if intent = ''greeting'' then Canned (get_random_response ''greeting'' pick)
      else if intent = ''help'' then Handle_help_request
      else Canned (get_random_response ''default'' pick))"
    by (simp add: process_message_def intent_def Let_def)
  have "intent = ''default'' \<or> intent = ''greetings'' \<or> intent = ''calculations''
      \<or> intent = ''chemicals'' \<or> intent = ''safety'' \<or> intent = ''experiments''
      \<or> intent = ''help''"
    using classify_intent_range [of "lower message"] unfolding intent_def by simp
  then have "process_message message pick =
     (if intent = ''safety'' then Handle_safety_info message
      else if intent = ''help'' then Handle_help_request
      else Canned (get_random_response ''default'' pick))"
    by (elim disjE) (simp_all add: pm)
  then show ?thesis by (simp add: intent_def)
qed

text \<open>
  Claim C9. For every message, \<^verbatim>\<open>process_message\<close> never calls the calculation, the
  chemical-information or the experiment handler and never answers from the greeting
  list: \<^verbatim>\<open>_classify_intent\<close> returns the plural keys of the knowledge base, which
  \<^verbatim>\<open>process_message\<close> compares with singular names. A message classified under
  one of the four plural keys gets a response drawn from the default list; the safety
  handler and the help handler are the only handlers that are reached, and both are.
\<close>

theorem process_message_dispatch:
  "(\<forall>message pick.
      (process_message message pick = Handle_safety_info message
       \<or> process_message message pick = Handle_help_request
       \<or> (\<exists>text \<in> set default_responses. process_message message pick = Canned text))
      \<and> (classify_intent (lower message) \<in>
            {''greetings'', ''calculations'', ''chemicals'', ''experiments''}
          \<longrightarrow> process_message message pick = Canned (get_random_response ''default'' pick)
              \<and> get_random_response ''default'' pick \<in> set default_responses))
   \<and> (\<exists>message pick. process_message message pick = Handle_safety_info message)
   \<and> (\<exists>message pick. process_message message pick = Handle_help_request)"
proof (intro conjI allI)
  fix message :: string and pick :: nat
  note d = get_random_default_in [of pick]
  show "process_message message pick = Handle_safety_info message
       \<or> process_message message pick = Handle_help_request
       \<or> (\<exists>text \<in> set default_responses. process_message message pick = Canned text)"
  proof (cases "classify_intent (lower message) = ''safety''")
    case True
    then show ?thesis by (simp add: process_message_by_intent)
  next
    case ns: False
    show ?thesis
    proof (cases "classify_intent (lower message) = ''help''")
      case True
      then show ?thesis by (simp add: process_message_by_intent)
    next
      case False
      with ns have "process_message message pick = Canned (get_random_response ''default'' pick)"
        by (simp add: process_message_by_intent)
      with d show ?thesis by (intro disjI2 bexI [of _ "get_random_response ''default'' pick"])
    qed
  qed
  show "classify_intent (lower message) \<in>
            {''greetings'', ''calculations'', ''chemicals'', ''experiments''}
          \<longrightarrow> process_message message pick = Canned (get_random_response ''default'' pick)
              \<and> get_random_response ''default'' pick \<in> set default_responses"
  proof
    assume "classify_intent (lower message) \<in>
            {''greetings'', ''calculations'', ''chemicals'', ''experiments''}"
    then have "classify_intent (lower message) = ''greetings''
       \<or> classify_intent (lower message) = ''calculations''
       \<or> classify_intent (lower message) = ''chemicals''
       \<or> classify_intent (lower message) = ''experiments''"
      by simp
    then have "process_message message pick = Canned (get_random_response ''default'' pick)"
      by (elim disjE) (simp_all add: process_message_by_intent)
    with d show "process_message message pick = Canned (get_random_response ''default'' pick)
              \<and> get_random_response ''default'' pick \<in> set default_responses"
      by (intro conjI)
  qed
next
  have "classify_intent (lower ''safety'') = ''safety''"
    by (simp add: classify_intent_def knowledge_base_def lower_def lower_char_def)
  then have "process_message ''safety'' 0 = Handle_safety_info ''safety''"
    by (simp add: process_message_by_intent)
  then show "\<exists>message pick. process_message message pick = Handle_safety_info message"
    by (intro exI)
next
  have "classify_intent (lower ''assist'') = ''help''"
    by (simp add: classify_intent_def knowledge_base_def lower_def lower_char_def)
  then have "process_message ''assist'' 0 = Handle_help_request"
    by (simp add: process_message_by_intent)
  then show "\<exists>message pick. process_message message pick = Handle_help_request"
    by (intro exI)
qed

text \<open>
  The message \<^verbatim>\<open>Hello\<close> matches the greeting keywords only and is answered from the
  default list, not from the greeting list.
\<close>

theorem process_message_dispatch_witness:
  "classify_intent (lower ''Hello'') = ''greetings''
   \<and> process_message ''Hello'' 0 = Canned (get_random_response ''default'' 0)
   \<and> get_random_response ''default'' 0 \<in> set default_responses
   \<and> process_message ''Hello'' 0 \<noteq> Canned (get_random_response ''greeting'' 0)"
proof -
  have c: "classify_intent (lower ''Hello'') = ''greetings''"
    by (simp add: classify_intent_def knowledge_base_def lower_def lower_char_def)
  have imp: "classify_intent (lower ''Hello'') \<in>
            {''greetings'', ''calculations'', ''chemicals'', ''experiments''}
          \<longrightarrow> process_message ''Hello'' 0 = Canned (get_random_response ''default'' 0)
              \<and> get_random_response ''default'' 0 \<in> set default_responses"
    using process_message_dispatch [THEN conjunct1, THEN spec, THEN spec, THEN conjunct2,
      of "''Hello''" 0] .
  have mem: "classify_intent (lower ''Hello'') \<in>
            {''greetings'', ''calculations'', ''chemicals'', ''experiments''}"
    unfolding c by simp
  from imp mem have d: "process_message ''Hello'' 0 = Canned (get_random_response ''default'' 0)
     \<and> get_random_response ''default'' 0 \<in> set default_responses"
    by (rule mp)
  have n: "get_random_response ''default'' 0 \<noteq> get_random_response ''greeting'' 0"
    by (simp add: get_random_response_def responses_def default_responses_def)
  from d n have "process_message ''Hello'' 0 \<noteq> Canned (get_random_response ''greeting'' 0)"
    by simp
  with c d show ?thesis by (intro conjI) simp_all
qed

section \<open>Properties of the reading validation\<close>

lemma convert_reading_Inr_iff:
  "convert_reading fos r = Inr (x, y) \<longleftrightarrow>
     (\<exists>a b. py_subscript r 0 = Inr a \<and> py_float fos a = Inr x
          \<and> py_subscript r 1 = Inr b \<and> py_float fos b = Inr y)"
  by (simp add: convert_reading_def split: sum.splits)

lemma convert_all_length:
  "convert_all fos rs = Inr ps \<Longrightarrow> length ps = length rs"
  by (induction rs arbitrary: ps) (auto split: sum.splits)

lemma convert_all_nth:
  "convert_all fos rs = Inr ps \<Longrightarrow> i < length rs \<Longrightarrow> convert_reading fos (rs ! i) = Inr (ps ! i)"
proof (induction rs arbitrary: ps i)
  case Nil
  then show ?case by simp
next
  case (Cons r rs)
  from Cons.prems(1) obtain p ps' where
    r: "convert_reading fos r = Inr p" and rs: "convert_all fos rs = Inr ps'" and ps: "ps = p # ps'"
    by (auto split: sum.splits)
  show ?case
  proof (cases i)
    case 0
    with r ps show ?thesis by simp
  next
    case (Suc j)
    with Cons.prems(2) have "j < length rs" by simp
    from Cons.IH [OF rs this] Suc ps show ?thesis by simp
  qed
qed

lemma convert_all_Inr_iff:
  "(\<exists>ps. convert_all fos rs = Inr ps) \<longleftrightarrow> (\<forall>r \<in> set rs. \<exists>p. convert_reading fos r = Inr p)"
proof (induction rs)
  case Nil
  then show ?case by simp
next
  case (Cons r rs)
  show ?case
  proof (cases "convert_reading fos r")
    case (Inl e)
    then show ?thesis by auto
  next
    case (Inr p)
    with Cons.IH show ?thesis
      by (cases "convert_all fos rs") auto
  qed
qed

lemma convert_all_Inl:
  "convert_all fos rs = Inl e \<Longrightarrow> \<exists>r \<in> set rs. convert_reading fos r = Inl e"
  by (induction rs) (auto split: sum.splits)

lemma invalid_format_cases:
  "invalid_format e = Raise e
   \<or> invalid_format e =
       Return (error_response (Str_value ''Invalid reading format. All values must be numbers.''))"
  by (simp add: invalid_format_def)

lemma invalid_format_not_Proceed: "invalid_format e \<noteq> Proceed v"
  by (simp add: invalid_format_def)

lemma invalid_format_Return:
  "invalid_format e = Return resp \<Longrightarrow> e = ValueError \<or> e = TypeError \<or> e = IndexError"
  by (simp add: invalid_format_def split: if_splits)

lemma validate_readings_Proceed:
  assumes "validate_readings fos orifice pitot = Proceed (os, ps)"
  shows "truthy orifice \<and> truthy pitot \<and> py_len orifice = py_len pitot
         \<and> convert_readings fos orifice = Inr os \<and> convert_readings fos pitot = Inr ps"
  using assms
  by (simp add: validate_readings_def invalid_format_not_Proceed
           split: if_splits sum.splits)

section \<open>The control flow of the route\<close>

lemma fluid_calculate_no_session:
  "session_user_id req = None \<Longrightarrow> fluid_calculate ev req st = (Redirect ''login'', st)"
  by (simp add: fluid_calculate_def)

lemma fluid_calculate_parse_error:
  "session_user_id req = Some uid \<Longrightarrow> parse_input (get_json req) = Inl e
     \<Longrightarrow> fluid_calculate ev req st = (error_response (Str_of_exn e), st)"
  by (simp add: fluid_calculate_def try_block_def)

lemma fluid_calculate_Raise:
  "session_user_id req = Some uid \<Longrightarrow> parse_input (get_json req) = Inr (orifice, pitot, g, c)
     \<Longrightarrow> validate_readings (float_of_str ev) orifice pitot = Raise e
     \<Longrightarrow> fluid_calculate ev req st = (error_response (Str_of_exn e), st)"
  by (simp add: fluid_calculate_def try_block_def)

lemma fluid_calculate_Return:
  "session_user_id req = Some uid \<Longrightarrow> parse_input (get_json req) = Inr (orifice, pitot, g, c)
     \<Longrightarrow> validate_readings (float_of_str ev) orifice pitot = Return resp
     \<Longrightarrow> fluid_calculate ev req st = (resp, st)"
  by (simp add: fluid_calculate_def try_block_def)

lemma fluid_calculate_Proceed:
  "session_user_id req = Some uid \<Longrightarrow> parse_input (get_json req) = Inr (orifice, pitot, g, c)
     \<Longrightarrow> validate_readings (float_of_str ev) orifice pitot = Proceed (os, ps)
     \<Longrightarrow> fluid_calculate ev req st =
          (case process_and_store ev uid os ps g c st of
             (Inl e, st') \<Rightarrow> (error_response (Str_of_exn e), st')
           | (Inr resp, st') \<Rightarrow> (resp, st'))"
  by (simp add: fluid_calculate_def try_block_def)

lemma validate_readings_cases:
  "(\<exists>e. validate_readings fos orifice pitot = Raise e)
   \<or> (\<exists>msg. validate_readings fos orifice pitot = Return (error_response msg))
   \<or> (\<exists>os ps. validate_readings fos orifice pitot = Proceed (os, ps))"
proof -
  have inv: "(\<exists>e'. invalid_format e = Raise e') \<or> (\<exists>msg. invalid_format e = Return (error_response msg))"
    for e
    using invalid_format_cases [of e] by blast
  show ?thesis
    unfolding validate_readings_def
    using inv by (simp split: sum.splits) blast
qed

lemma success_response_cases:
  "(\<exists>e. success_response result = Inl e)
   \<or> (\<exists>r m mc gb pb.
        py_item result ''mean_cv'' = Inr m
        \<and> success_response result =
            Inr (Jsonify [(''success'', Bool_value True),
                          (''results'', Json_value r),
                          (''mean_cv'', Json_value m),
                          (''model_calculation'', Json_value mc),
                          (''graph_base64'', Json_value gb),
                          (''pdf_base64'', Json_value pb)] 200))"
  by (simp add: success_response_def split: sum.splits)

lemma process_and_store_tuple_error:
  "py_iter g = Inl e \<Longrightarrow> process_and_store ev uid os ps g c st = (Inl e, st)"
  by (simp add: process_and_store_def)

lemma process_and_store_pipeline_error:
  "py_iter g = Inr labels \<Longrightarrow> process_experiment_data ev os ps labels c = Inl e
     \<Longrightarrow> process_and_store ev uid os ps g c st =
          (Inl e, st\<lparr>pipeline_calls := pipeline_calls st @ [(os, ps, labels, c)]\<rparr>)"
  by (simp add: process_and_store_def)

lemma process_and_store_no_mean_cv:
  "py_iter g = Inr labels \<Longrightarrow> process_experiment_data ev os ps labels c = Inr result
     \<Longrightarrow> py_item result ''mean_cv'' = Inl e
     \<Longrightarrow> fst (process_and_store ev uid os ps g c st) = Inl e"
  by (simp add: process_and_store_def Let_def)

lemma process_and_store_result:
  "py_iter g = Inr labels \<Longrightarrow> process_experiment_data ev os ps labels c = Inr result
     \<Longrightarrow> py_item result ''mean_cv'' = Inr m
     \<Longrightarrow> process_and_store ev uid os ps g c st =
          (success_response result,
           (log_activity uid ''Fluid Calculation''
              (''Pitot Tube experiment with '' @ string_of_nat (length os) @ '' readings'')
              (st\<lparr>pipeline_calls := pipeline_calls st @ [(os, ps, labels, c)]\<rparr>))
             \<lparr>calculations := calculations st @
                [\<lparr>calc_user_id = uid, reagent = ''Pitot Tube Experiment'',
                  formula = ''Cv = V0/Vp'', molarity = 0, volume = 0, mass_needed = m\<rparr>]\<rparr>)"
  by (simp add: process_and_store_def Let_def log_activity_def)

lemma process_and_store_calls:
  "py_iter g = Inr labels \<Longrightarrow>
     pipeline_calls (snd (process_and_store ev uid os ps g c st)) =
       pipeline_calls st @ [(os, ps, labels, c)]"
  by (simp add: process_and_store_def Let_def log_activity_def split: sum.splits)

lemma process_and_store_cases:
  "(\<exists>e. fst (process_and_store ev uid os ps g c st) = Inl e)
   \<or> (\<exists>r m mc gb pb.
        fst (process_and_store ev uid os ps g c st) =
            Inr (Jsonify [(''success'', Bool_value True),
                          (''results'', Json_value r),
                          (''mean_cv'', Json_value m),
                          (''model_calculation'', Json_value mc),
                          (''graph_base64'', Json_value gb),
                          (''pdf_base64'', Json_value pb)] 200)
        \<and> calculations (snd (process_and_store ev uid os ps g c st)) =
            calculations st @
              [\<lparr>calc_user_id = uid, reagent = ''Pitot Tube Experiment'',
                formula = ''Cv = V0/Vp'', molarity = 0, volume = 0, mass_needed = m\<rparr>])"
proof (cases "py_iter g")
  case (Inl e)
  then show ?thesis by (simp add: process_and_store_tuple_error)
next
  case labels: (Inr labels)
  show ?thesis
  proof (cases "process_experiment_data ev os ps labels c")
    case (Inl e)
    with labels show ?thesis by (simp add: process_and_store_pipeline_error)
  next
    case result: (Inr result)
    show ?thesis
    proof (cases "py_item result ''mean_cv''")
      case (Inl e)
      from process_and_store_no_mean_cv [OF labels result Inl] show ?thesis by simp
    next
      case (Inr m)
      note ps = process_and_store_result [OF labels result Inr, of uid st]
      from success_response_cases [of result] show ?thesis
      proof (elim disjE exE conjE)
        fix e assume "success_response result = Inl e"
        with ps show ?thesis by simp
      next
        fix r m' mc gb pb
        assume m': "py_item result ''mean_cv'' = Inr m'"
          and s: "success_response result =
            Inr (Jsonify [(''success'', Bool_value True),
                          (''results'', Json_value r),
                          (''mean_cv'', Json_value m'),
                          (''model_calculation'', Json_value mc),
                          (''graph_base64'', Json_value gb),
                          (''pdf_base64'', Json_value pb)] 200)"
        from m' Inr have "m' = m" by simp
        with ps s have "fst (process_and_store ev uid os ps g c st) =
            Inr (Jsonify [(''success'', Bool_value True),
                          (''results'', Json_value r),
                          (''mean_cv'', Json_value m),
                          (''model_calculation'', Json_value mc),
                          (''graph_base64'', Json_value gb),
                          (''pdf_base64'', Json_value pb)] 200)
          \<and> calculations (snd (process_and_store ev uid os ps g c st)) =
            calculations st @
              [\<lparr>calc_user_id = uid, reagent = ''Pitot Tube Experiment'',
                formula = ''Cv = V0/Vp'', molarity = 0, volume = 0, mass_needed = m\<rparr>]"
          by (simp add: log_activity_def)
        then show ?thesis by (intro disjI2 exI)
      qed
    qed
  qed
qed

lemma fluid_calculate_Proceed_fst_snd:
  assumes "session_user_id req = Some uid"
      and "parse_input (get_json req) = Inr (orifice, pitot, g, c)"
      and "validate_readings (float_of_str ev) orifice pitot = Proceed (os, ps)"
  shows "fst (fluid_calculate ev req st) =
           (case fst (process_and_store ev uid os ps g c st) of
              Inl e \<Rightarrow> error_response (Str_of_exn e)
            | Inr resp \<Rightarrow> resp)"
    and "snd (fluid_calculate ev req st) = snd (process_and_store ev uid os ps g c st)"
  unfolding fluid_calculate_Proceed [OF assms]
  by (simp_all split: prod.splits sum.splits)

lemma fluid_calculate_outcomes:
  "fluid_calculate ev req st = (Redirect ''login'', st) \<and> session_user_id req = None
   \<or> (\<exists>msg. fst (fluid_calculate ev req st) =
         Jsonify [(''success'', Bool_value False), (''error'', msg)] 400)
   \<or> (\<exists>uid r m mc gb pb.
         session_user_id req = Some uid
         \<and> fst (fluid_calculate ev req st) =
             Jsonify [(''success'', Bool_value True),
                      (''results'', Json_value r),
                      (''mean_cv'', Json_value m),
                      (''model_calculation'', Json_value mc),
                      (''graph_base64'', Json_value gb),
                      (''pdf_base64'', Json_value pb)] 200
         \<and> calculations (snd (fluid_calculate ev req st)) =
             calculations st @
               [\<lparr>calc_user_id = uid, reagent = ''Pitot Tube Experiment'',
                 formula = ''Cv = V0/Vp'', molarity = 0, volume = 0, mass_needed = m\<rparr>])"
proof (cases "session_user_id req")
  case None
  then show ?thesis by (simp add: fluid_calculate_no_session)
next
  case (Some uid)
  show ?thesis
  proof (cases "parse_input (get_json req)")
    case (Inl e)
    from fluid_calculate_parse_error [OF Some Inl] show ?thesis
      by (simp add: error_response_def)
  next
    case (Inr quad)
    then obtain orifice pitot g c where
      p: "parse_input (get_json req) = Inr (orifice, pitot, g, c)"
      by (cases quad) auto
    from validate_readings_cases [of "float_of_str ev" orifice pitot]
    consider e where "validate_readings (float_of_str ev) orifice pitot = Raise e"
      | msg where "validate_readings (float_of_str ev) orifice pitot = Return (error_response msg)"
      | os ps where "validate_readings (float_of_str ev) orifice pitot = Proceed (os, ps)"
      by blast
    then show ?thesis
    proof cases
      case 1
      from fluid_calculate_Raise [OF Some p 1] show ?thesis
        by (simp add: error_response_def)
    next
      case 2
      from fluid_calculate_Return [OF Some p 2] show ?thesis
        by (simp add: error_response_def)
    next
      case 3
      note fs = fluid_calculate_Proceed_fst_snd [OF Some p 3, of st]
      from process_and_store_cases [of ev uid os ps g c st] show ?thesis
      proof (elim disjE exE conjE)
        fix e assume "fst (process_and_store ev uid os ps g c st) = Inl e"
        with fs(1) have "fst (fluid_calculate ev req st) =
            Jsonify [(''success'', Bool_value False), (''error'', Str_of_exn e)] 400"
          by (simp add: error_response_def)
        then show ?thesis by (intro disjI2 disjI1 exI)
      next
        fix r m mc gb pb
        assume "fst (process_and_store ev uid os ps g c st) =
            Inr (Jsonify [(''success'', Bool_value True),
                          (''results'', Json_value r),
                          (''mean_cv'', Json_value m),
                          (''model_calculation'', Json_value mc),
                          (''graph_base64'', Json_value gb),
                          (''pdf_base64'', Json_value pb)] 200)"
          and "calculations (snd (process_and_store ev uid os ps g c st)) =
            calculations st @
              [\<lparr>calc_user_id = uid, reagent = ''Pitot Tube Experiment'',
                formula = ''Cv = V0/Vp'', molarity = 0, volume = 0, mass_needed = m\<rparr>]"
        with fs Some have "session_user_id req = Some uid
         \<and> fst (fluid_calculate ev req st) =
             Jsonify [(''success'', Bool_value True),
                      (''results'', Json_value r),
                      (''mean_cv'', Json_value m),
                      (''model_calculation'', Json_value mc),
                      (''graph_base64'', Json_value gb),
                      (''pdf_base64'', Json_value pb)] 200
         \<and> calculations (snd (fluid_calculate ev req st)) =
             calculations st @
               [\<lparr>calc_user_id = uid, reagent = ''Pitot Tube Experiment'',
                 formula = ''Cv = V0/Vp'', molarity = 0, volume = 0, mass_needed = m\<rparr>]"
          by simp
        then show ?thesis by (intro disjI2 exI)
      qed
    qed
  qed
qed

lemma py_item_error: "py_item d key = Inl e \<Longrightarrow> e = KeyError"
  by (simp add: py_item_def split: option.splits)

lemma success_response_no_mean_cv:
  "py_item result ''mean_cv'' = Inl e \<Longrightarrow> success_response result = Inl e"
  by (auto simp: success_response_def split: sum.splits dest: py_item_error)

lemma fluid_calculate_applies_pipeline:
  assumes "session_user_id req = Some uid"
      and "parse_input (get_json req) = Inr (orifice, pitot, g, c)"
      and "validate_readings (float_of_str ev) orifice pitot = Proceed (os, ps)"
      and "py_iter g = Inr labels"
  shows "fst (fluid_calculate ev req st) =
           (case process_experiment_data ev os ps labels c of
              Inl e \<Rightarrow> error_response (Str_of_exn e)
            | Inr result \<Rightarrow>
                (case success_response result of
                   Inl e \<Rightarrow> error_response (Str_of_exn e)
                 | Inr resp \<Rightarrow> resp))"
    and "pipeline_calls (snd (fluid_calculate ev req st)) =
           pipeline_calls st @ [(os, ps, labels, c)]"
proof -
  note fs = fluid_calculate_Proceed_fst_snd [OF assms(1,2,3), of st]
  show "pipeline_calls (snd (fluid_calculate ev req st)) =
           pipeline_calls st @ [(os, ps, labels, c)]"
    unfolding fs(2) by (rule process_and_store_calls [OF assms(4)])
  show "fst (fluid_calculate ev req st) =
           (case process_experiment_data ev os ps labels c of
              Inl e \<Rightarrow> error_response (Str_of_exn e)
            | Inr result \<Rightarrow>
                (case success_response result of
                   Inl e \<Rightarrow> error_response (Str_of_exn e)
                 | Inr resp \<Rightarrow> resp))"
  proof (cases "process_experiment_data ev os ps labels c")
    case (Inl e)
    from process_and_store_pipeline_error [OF assms(4) Inl, of uid st] Inl show ?thesis
      by (simp add: fs(1))
  next
    case result: (Inr result)
    show ?thesis
    proof (cases "py_item result ''mean_cv''")
      case (Inl e)
      from process_and_store_no_mean_cv [OF assms(4) result Inl, of uid st]
        success_response_no_mean_cv [OF Inl] result
      show ?thesis by (simp add: fs(1))
    next
      case (Inr m)
      from process_and_store_result [OF assms(4) result Inr, of uid st] result
      show ?thesis by (simp add: fs(1))
    qed
  qed
qed

lemma convert_all_list_all2:
  "list_all2 (\<lambda>r p. convert_reading fos r = Inr p) rs ps \<Longrightarrow> convert_all fos rs = Inr ps"
  by (induction rule: list_all2_induct) simp_all

lemma convert_all_append:
  "convert_all fos (xs @ ys) =
     (case convert_all fos xs of
        Inl e \<Rightarrow> Inl e
      | Inr os \<Rightarrow>
          (case convert_all fos ys of
             Inl e \<Rightarrow> Inl e
           | Inr ps \<Rightarrow> Inr (os @ ps)))"
  by (induction xs) (simp_all split: sum.splits)

lemma validate_readings_converted:
  assumes "xs \<noteq> []" and "length xs = length ys"
      and "convert_all fos xs = Inr os" and "convert_all fos ys = Inr ps"
  shows "validate_readings fos (JArr xs) (JArr ys) = Proceed (os, ps)"
proof -
  from assms(1,2) have "ys \<noteq> []" by auto
  with assms show ?thesis
    by (simp add: validate_readings_def convert_readings_def)
qed

lemma validate_readings_first_error:
  assumes "xs \<noteq> []" and "length xs = length ys" and "convert_all fos (xs @ ys) = Inl e"
  shows "validate_readings fos (JArr xs) (JArr ys) = invalid_format e"
proof -
  from assms(1,2) have "ys \<noteq> []" by auto
  with assms show ?thesis
    by (simp add: validate_readings_def convert_readings_def convert_all_append
             split: sum.splits)
qed

lemma convert_all_float_pairs:
  "convert_all fos (map (\<lambda>p. JArr [JFloat (fst p), JFloat (snd p)]) ps) = Inr ps"
  by (induction ps) (simp_all add: convert_reading_def)

lemma int_to_float_error: "int_to_float i = Inl e \<Longrightarrow> e = OverflowError"
  by (simp add: int_to_float_def Let_def split: if_splits)

lemma py_subscript_IndexError:
  "py_subscript r i = Inl IndexError \<Longrightarrow>
     (\<exists>xs. r = JArr xs \<and> length xs \<le> i) \<or> (\<exists>s. r = JStr s \<and> length s \<le> i)"
  by (cases r) (simp_all split: if_splits)

lemma py_subscript_TypeError:
  "py_subscript r i = Inl TypeError \<Longrightarrow>
     r = JNull \<or> (\<exists>b. r = JBool b) \<or> (\<exists>n. r = JInt n) \<or> (\<exists>f. r = JFloat f)"
  by (cases r) (simp_all split: if_splits)

lemma py_subscript_ValueError: "py_subscript r i \<noteq> Inl ValueError"
  by (cases r) simp_all

lemma py_float_IndexError: "py_float fos a \<noteq> Inl IndexError"
  by (cases a) (auto split: option.splits dest: int_to_float_error)

lemma py_float_ValueError:
  "py_float fos a = Inl ValueError \<Longrightarrow> \<exists>s. a = JStr s \<and> fos s = None"
  by (cases a) (auto split: option.splits dest: int_to_float_error)

lemma py_float_TypeError:
  "py_float fos a = Inl TypeError \<Longrightarrow> a = JNull \<or> (\<exists>xs. a = JArr xs) \<or> (\<exists>kvs. a = JObj kvs)"
  by (cases a) (auto split: option.splits dest: int_to_float_error)

lemma convert_reading_Inl:
  "convert_reading fos r = Inl e \<Longrightarrow>
     py_subscript r 0 = Inl e
     \<or> (\<exists>a. py_subscript r 0 = Inr a \<and> py_float fos a = Inl e)
     \<or> py_subscript r 1 = Inl e
     \<or> (\<exists>b. py_subscript r 1 = Inr b \<and> py_float fos b = Inl e)"
  by (simp add: convert_reading_def split: sum.splits)

text \<open>
  Claim C4. Whenever the validation succeeds, the two reading sequences it hands on are
  the input sequences converted element by element, in the input order: each output
  has the length of its input, and output element \<open>i\<close> is the pair of the \<^verbatim>\<open>float\<close>
  conversions of the first and of the second component of input element \<open>i\<close>.
\<close>

theorem validate_readings_converts_in_order:
  assumes "validate_readings fos orifice pitot = Proceed (os, ps)"
      and "py_iter orifice = Inr xs"
      and "py_iter pitot = Inr ys"
  shows "length os = length xs \<and> length ps = length ys
    \<and> (\<forall>i < length xs. \<exists>a b.
          py_subscript (xs ! i) 0 = Inr a \<and> py_subscript (xs ! i) 1 = Inr b
          \<and> py_float fos a = Inr (fst (os ! i)) \<and> py_float fos b = Inr (snd (os ! i)))
    \<and> (\<forall>i < length ys. \<exists>a b.
          py_subscript (ys ! i) 0 = Inr a \<and> py_subscript (ys ! i) 1 = Inr b
          \<and> py_float fos a = Inr (fst (ps ! i)) \<and> py_float fos b = Inr (snd (ps ! i)))"
proof -
  from validate_readings_Proceed [OF assms(1)] assms(2,3)
  have o: "convert_all fos xs = Inr os" and p: "convert_all fos ys = Inr ps"
    by (simp_all add: convert_readings_def)
  have elem: "\<exists>a b. py_subscript (rs ! i) 0 = Inr a \<and> py_subscript (rs ! i) 1 = Inr b
          \<and> py_float fos a = Inr (fst (qs ! i)) \<and> py_float fos b = Inr (snd (qs ! i))"
    if "convert_all fos rs = Inr qs" and "i < length rs" for rs qs i
  proof -
    from convert_all_nth [OF that] have "convert_reading fos (rs ! i) = Inr (fst (qs ! i), snd (qs ! i))"
      by simp
    then show ?thesis
      unfolding convert_reading_Inr_iff by blast
  qed
  from elem [OF o] elem [OF p] convert_all_length [OF o] convert_all_length [OF p]
  show ?thesis by blast
qed

theorem validate_readings_converts_in_order_witness:
  "validate_readings (\<lambda>s. None)
       (JArr [JArr [JFloat (Fin 1), JFloat (Fin 2)], JArr [JInt 3, JBool True]])
       (JArr [JArr [JFloat (Fin 5), JFloat (Fin 6)], JArr [JFloat (Fin 7), JFloat (Fin 8)]])
     = Proceed ([(Fin 1, Fin 2), (Fin 3, Fin 1)], [(Fin 5, Fin 6), (Fin 7, Fin 8)])
   \<and> length [(Fin 1, Fin 2), (Fin 3, Fin 1)] = length [JArr [JFloat (Fin 1), JFloat (Fin 2)], JArr [JInt 3, JBool True]]
   \<and> py_float (\<lambda>s. None) (JInt 3) = Inr (Fin 3)
   \<and> py_float (\<lambda>s. None) (JBool True) = Inr (Fin 1)"
proof -
  have three: "int_to_float 3 = Inr (Fin 3)"
    by (simp add: int_to_float_def round_to_53_bits_def bit_length.simps Let_def)
  have v: "validate_readings (\<lambda>s. None)
       (JArr [JArr [JFloat (Fin 1), JFloat (Fin 2)], JArr [JInt 3, JBool True]])
       (JArr [JArr [JFloat (Fin 5), JFloat (Fin 6)], JArr [JFloat (Fin 7), JFloat (Fin 8)]])
     = Proceed ([(Fin 1, Fin 2), (Fin 3, Fin 1)], [(Fin 5, Fin 6), (Fin 7, Fin 8)])"
    by (simp add: validate_readings_def convert_readings_def convert_reading_def three)
  have i1: "py_iter (JArr [JArr [JFloat (Fin 1), JFloat (Fin 2)], JArr [JInt 3, JBool True]])
      = Inr [JArr [JFloat (Fin 1), JFloat (Fin 2)], JArr [JInt 3, JBool True]]"
    by simp
  have i2: "py_iter (JArr [JArr [JFloat (Fin 5), JFloat (Fin 6)], JArr [JFloat (Fin 7), JFloat (Fin 8)]])
      = Inr [JArr [JFloat (Fin 5), JFloat (Fin 6)], JArr [JFloat (Fin 7), JFloat (Fin 8)]]"
    by simp
  note t = validate_readings_converts_in_order [OF v i1 i2]
  from t have len: "length [(Fin 1, Fin 2), (Fin 3, Fin 1 :: pyfloat)]
      = length [JArr [JFloat (Fin 1), JFloat (Fin 2)], JArr [JInt 3, JBool True]]"
    by (rule conjunct1)
  note t1 = t [THEN conjunct2, THEN conjunct2, THEN conjunct1, THEN spec [where x = "1::nat"]]
  from t1 have "py_float (\<lambda>s. None) (JInt 3) = Inr (Fin 3)
      \<and> py_float (\<lambda>s. None) (JBool True) = Inr (Fin 1)"
    by simp
  with v len show ?thesis by (intro conjI) simp_all
qed

text \<open>
  Claim C10. The validation accepts reading elements with more than two components:
  an element whose first two components \<^verbatim>\<open>float\<close> converts is converted to the pair of
  those two values, whatever follows them. When every element of both sequences is
  such (the sequences non-empty and of equal length) the validation succeeds and hands
  on exactly those pairs, in order, and the route goes on to the pipeline with them.
  When the first element that cannot be converted raises IndexError, ValueError or
  TypeError the validation answers "Invalid reading format"; any other exception is
  not caught by it. So that answer is given only when some element raises one of the
  three: IndexError only when the element is a list or a string with fewer than two
  components, ValueError only when one of the first two components is a string that is
  not a number, TypeError only when the element is not subscriptable or one of the
  first two components is \<^verbatim>\<open>None\<close>, a list or a dict.
\<close>

theorem validation_truncates_extra_components:
  "(\<forall>a b rest x y. py_float fos a = Inr x \<longrightarrow> py_float fos b = Inr y
        \<longrightarrow> convert_reading fos (JArr (a # b # rest)) = Inr (x, y))
   \<and> (xs \<noteq> [] \<longrightarrow> length xs = length ys
        \<longrightarrow> list_all2 (\<lambda>r p. \<exists>a b. py_subscript r 0 = Inr a \<and> py_float fos a = Inr (fst p)
                              \<and> py_subscript r 1 = Inr b \<and> py_float fos b = Inr (snd p)) xs os
        \<longrightarrow> list_all2 (\<lambda>r p. \<exists>a b. py_subscript r 0 = Inr a \<and> py_float fos a = Inr (fst p)
                              \<and> py_subscript r 1 = Inr b \<and> py_float fos b = Inr (snd p)) ys ps
        \<longrightarrow> validate_readings fos (JArr xs) (JArr ys) = Proceed (os, ps)
            \<and> (session_user_id req = Some uid \<longrightarrow> float_of_str ev = fos
                 \<longrightarrow> parse_input (get_json req) = Inr (JArr xs, JArr ys, g, c)
                 \<longrightarrow> py_iter g = Inr labels
                 \<longrightarrow> pipeline_calls (snd (fluid_calculate ev req st)) =
                       pipeline_calls st @ [(os, ps, labels, c)]
                     \<and> fst (fluid_calculate ev req st) =
                         (case process_experiment_data ev os ps labels c of
                            Inl e \<Rightarrow> error_response (Str_of_exn e)
                          | Inr result \<Rightarrow>
                              (case success_response result of
                                 Inl e \<Rightarrow> error_response (Str_of_exn e)
                               | Inr resp \<Rightarrow> resp))))
   \<and> (xs \<noteq> [] \<longrightarrow> length xs = length ys
        \<longrightarrow> (\<forall>r \<in> set (xs @ ys). \<exists>a b x y.
               py_subscript r 0 = Inr a \<and> py_float fos a = Inr x
               \<and> py_subscript r 1 = Inr b \<and> py_float fos b = Inr y)
        \<longrightarrow> (\<exists>os ps. validate_readings fos (JArr xs) (JArr ys) = Proceed (os, ps)))
   \<and> (xs \<noteq> [] \<longrightarrow> length xs = length ys \<longrightarrow> convert_all fos (xs @ ys) = Inl e
        \<longrightarrow> validate_readings fos (JArr xs) (JArr ys) =
              (if e = IndexError \<or> e = ValueError \<or> e = TypeError
               then Return (Jsonify [(''success'', Bool_value False),
                      (''error'', Str_value ''Invalid reading format. All values must be numbers.'')]
                      400)
               else Raise e))
   \<and> (validate_readings fos (JArr xs) (JArr ys) =
         Return (error_response
           (Str_value ''Invalid reading format. All values must be numbers.''))
        \<longrightarrow> (\<exists>r \<in> set (xs @ ys).
               convert_reading fos r = Inl IndexError
               \<or> convert_reading fos r = Inl ValueError
               \<or> convert_reading fos r = Inl TypeError))
   \<and> (\<forall>r. convert_reading fos r = Inl IndexError
        \<longrightarrow> (\<exists>cs. r = JArr cs \<and> length cs < 2) \<or> (\<exists>s. r = JStr s \<and> length s < 2))
   \<and> (\<forall>r. convert_reading fos r = Inl ValueError
        \<longrightarrow> (\<exists>s. (py_subscript r 0 = Inr (JStr s) \<or> py_subscript r 1 = Inr (JStr s))
               \<and> fos s = None))
   \<and> (\<forall>r. convert_reading fos r = Inl TypeError
        \<longrightarrow> r = JNull \<or> (\<exists>b. r = JBool b) \<or> (\<exists>n. r = JInt n) \<or> (\<exists>f. r = JFloat f)
            \<or> (\<exists>c. (py_subscript r 0 = Inr c \<or> py_subscript r 1 = Inr c)
                 \<and> (c = JNull \<or> (\<exists>cs. c = JArr cs) \<or> (\<exists>kvs. c = JObj kvs))))"
proof (intro conjI allI impI)
  fix a b rest x y
  assume "py_float fos a = Inr x" and "py_float fos b = Inr y"
  then show "convert_reading fos (JArr (a # b # rest)) = Inr (x, y)"
    by (simp add: convert_reading_def)
next
  assume ne: "xs \<noteq> []" and len: "length xs = length ys"
    and o: "list_all2 (\<lambda>r p. \<exists>a b. py_subscript r 0 = Inr a \<and> py_float fos a = Inr (fst p)
                              \<and> py_subscript r 1 = Inr b \<and> py_float fos b = Inr (snd p)) xs os"
    and p: "list_all2 (\<lambda>r p. \<exists>a b. py_subscript r 0 = Inr a \<and> py_float fos a = Inr (fst p)
                              \<and> py_subscript r 1 = Inr b \<and> py_float fos b = Inr (snd p)) ys ps"
  have conv: "convert_reading fos r = Inr q"
    if "\<exists>a b. py_subscript r 0 = Inr a \<and> py_float fos a = Inr (fst q)
          \<and> py_subscript r 1 = Inr b \<and> py_float fos b = Inr (snd q)" for r q
  proof -
    from that have "convert_reading fos r = Inr (fst q, snd q)"
      unfolding convert_reading_Inr_iff by blast
    then show ?thesis by simp
  qed
  from o have "list_all2 (\<lambda>r p. convert_reading fos r = Inr p) xs os"
    by (rule list_all2_mono) (rule conv)
  then have co: "convert_all fos xs = Inr os" by (rule convert_all_list_all2)
  from p have "list_all2 (\<lambda>r p. convert_reading fos r = Inr p) ys ps"
    by (rule list_all2_mono) (rule conv)
  then have cp: "convert_all fos ys = Inr ps" by (rule convert_all_list_all2)
  show v: "validate_readings fos (JArr xs) (JArr ys) = Proceed (os, ps)"
    by (rule validate_readings_converted [OF ne len co cp])
  assume u: "session_user_id req = Some uid" and f: "float_of_str ev = fos"
    and pi: "parse_input (get_json req) = Inr (JArr xs, JArr ys, g, c)"
    and l: "py_iter g = Inr labels"
  from v f have v': "validate_readings (float_of_str ev) (JArr xs) (JArr ys) = Proceed (os, ps)"
    by simp
  show "pipeline_calls (snd (fluid_calculate ev req st)) =
          pipeline_calls st @ [(os, ps, labels, c)]"
    by (rule fluid_calculate_applies_pipeline(2) [OF u pi v' l])
  show "fst (fluid_calculate ev req st) =
          (case process_experiment_data ev os ps labels c of
             Inl e \<Rightarrow> error_response (Str_of_exn e)
           | Inr result \<Rightarrow>
               (case success_response result of
                  Inl e \<Rightarrow> error_response (Str_of_exn e)
                | Inr resp \<Rightarrow> resp))"
    by (rule fluid_calculate_applies_pipeline(1) [OF u pi v' l])
next
  assume ne: "xs \<noteq> []" and len: "length xs = length ys"
    and ok: "\<forall>r \<in> set (xs @ ys). \<exists>a b x y.
               py_subscript r 0 = Inr a \<and> py_float fos a = Inr x
               \<and> py_subscript r 1 = Inr b \<and> py_float fos b = Inr y"
  have conv: "\<exists>p. convert_reading fos r = Inr p" if "r \<in> set (xs @ ys)" for r
  proof -
    from ok that obtain a b x y where
      "py_subscript r 0 = Inr a \<and> py_float fos a = Inr x
         \<and> py_subscript r 1 = Inr b \<and> py_float fos b = Inr y"
      by blast
    then have "convert_reading fos r = Inr (x, y)"
      unfolding convert_reading_Inr_iff by blast
    then show ?thesis by blast
  qed
  have "\<exists>os. convert_all fos xs = Inr os"
    unfolding convert_all_Inr_iff using conv by simp
  then obtain os where o: "convert_all fos xs = Inr os" ..
  have "\<exists>ps. convert_all fos ys = Inr ps"
    unfolding convert_all_Inr_iff using conv by simp
  then obtain ps where p: "convert_all fos ys = Inr ps" ..
  from ne len have "ys \<noteq> []" by auto
  with ne len o p have "validate_readings fos (JArr xs) (JArr ys) = Proceed (os, ps)"
    by (simp add: validate_readings_def convert_readings_def)
  then show "\<exists>os ps. validate_readings fos (JArr xs) (JArr ys) = Proceed (os, ps)"
    by blast
next
  assume "xs \<noteq> []" and "length xs = length ys" and "convert_all fos (xs @ ys) = Inl e"
  then have "validate_readings fos (JArr xs) (JArr ys) = invalid_format e"
    by (rule validate_readings_first_error)
  then show "validate_readings fos (JArr xs) (JArr ys) =
              (if e = IndexError \<or> e = ValueError \<or> e = TypeError
               then Return (Jsonify [(''success'', Bool_value False),
                      (''error'', Str_value ''Invalid reading format. All values must be numbers.'')]
                      400)
               else Raise e)"
    by (simp add: invalid_format_def error_response_def)
next
  assume ret: "validate_readings fos (JArr xs) (JArr ys) =
         Return (error_response
           (Str_value ''Invalid reading format. All values must be numbers.''))"
  have other: "error_response (Str_value ''No readings provided'') \<noteq>
      error_response (Str_value ''Invalid reading format. All values must be numbers.'')"
    "error_response (Str_value ''Mismatched number of orifice and pitot readings'') \<noteq>
      error_response (Str_value ''Invalid reading format. All values must be numbers.'')"
    by (simp_all add: error_response_def)
  from ret other have
    "(\<exists>e. convert_all fos xs = Inl e \<and> (e = ValueError \<or> e = TypeError \<or> e = IndexError))
     \<or> (\<exists>e. convert_all fos ys = Inl e \<and> (e = ValueError \<or> e = TypeError \<or> e = IndexError))"
    by (auto simp: validate_readings_def convert_readings_def
          split: if_splits sum.splits dest: invalid_format_Return)
  then obtain e rs where e: "e = ValueError \<or> e = TypeError \<or> e = IndexError"
    and rs: "convert_all fos rs = Inl e" and sub: "set rs \<subseteq> set (xs @ ys)"
    by auto
  from convert_all_Inl [OF rs] obtain r where "r \<in> set rs" and "convert_reading fos r = Inl e"
    by blast
  with e sub show "\<exists>r \<in> set (xs @ ys).
               convert_reading fos r = Inl IndexError
               \<or> convert_reading fos r = Inl ValueError
               \<or> convert_reading fos r = Inl TypeError"
    by blast
next
  fix r
  assume "convert_reading fos r = Inl IndexError"
  from convert_reading_Inl [OF this]
  have "py_subscript r 0 = Inl IndexError \<or> py_subscript r 1 = Inl IndexError"
    by (simp add: py_float_IndexError)
  then show "(\<exists>cs. r = JArr cs \<and> length cs < 2) \<or> (\<exists>s. r = JStr s \<and> length s < 2)"
    by (auto dest!: py_subscript_IndexError)
next
  fix r
  assume "convert_reading fos r = Inl ValueError"
  from convert_reading_Inl [OF this]
  show "\<exists>s. (py_subscript r 0 = Inr (JStr s) \<or> py_subscript r 1 = Inr (JStr s))
               \<and> fos s = None"
    by (auto simp: py_subscript_ValueError dest!: py_float_ValueError)
next
  fix r
  assume "convert_reading fos r = Inl TypeError"
  from convert_reading_Inl [OF this]
  show "r = JNull \<or> (\<exists>b. r = JBool b) \<or> (\<exists>n. r = JInt n) \<or> (\<exists>f. r = JFloat f)
            \<or> (\<exists>c. (py_subscript r 0 = Inr c \<or> py_subscript r 1 = Inr c)
                 \<and> (c = JNull \<or> (\<exists>cs. c = JArr cs) \<or> (\<exists>kvs. c = JObj kvs)))"
    by (elim disjE exE conjE)
       (use py_subscript_TypeError py_float_TypeError in blast)+
qed

text \<open>
  A reading of three and a reading of four components are accepted and cut to their
  first two; a reading of one component is answered with "Invalid reading format".
\<close>

theorem validation_truncates_extra_components_witness:
  "convert_reading (\<lambda>s. None) (JArr [JFloat (Fin 1), JFloat (Fin 2), JFloat (Fin 99)])
       = Inr (Fin 1, Fin 2)
   \<and> validate_readings (\<lambda>s. None)
          (JArr [JArr [JFloat (Fin 1), JFloat (Fin 2), JFloat (Fin 99)]])
          (JArr [JArr [JFloat (Fin 3), JFloat (Fin 4), JStr ''extra'', JNull]])
        = Proceed ([(Fin 1, Fin 2)], [(Fin 3, Fin 4)])
   \<and> convert_all (\<lambda>s. None) ([JArr [JFloat (Fin 1)]] @ [JArr [JFloat (Fin 3), JFloat (Fin 4)]])
        = Inl IndexError
   \<and> validate_readings (\<lambda>s. None)
          (JArr [JArr [JFloat (Fin 1)]]) (JArr [JArr [JFloat (Fin 3), JFloat (Fin 4)]])
        = Return (Jsonify [(''success'', Bool_value False),
            (''error'', Str_value ''Invalid reading format. All values must be numbers.'')] 400)
   \<and> length [JFloat (Fin 1)] < 2"
proof -
  note t = validation_truncates_extra_components
    [of "\<lambda>s. None" "[JArr [JFloat (Fin 1), JFloat (Fin 2), JFloat (Fin 99)]]"
        "[JArr [JFloat (Fin 3), JFloat (Fin 4), JStr ''extra'', JNull]]"
        "[(Fin 1, Fin 2)]" "[(Fin 3, Fin 4)]"]
  have f1: "py_float (\<lambda>s. None) (JFloat (Fin 1)) = Inr (Fin 1)"
    and f2: "py_float (\<lambda>s. None) (JFloat (Fin 2)) = Inr (Fin 2)"
    by simp_all
  from t [THEN conjunct1] have
    "py_float (\<lambda>s. None) (JFloat (Fin 1)) = Inr (Fin 1)
     \<longrightarrow> py_float (\<lambda>s. None) (JFloat (Fin 2)) = Inr (Fin 2)
     \<longrightarrow> convert_reading (\<lambda>s. None) (JArr (JFloat (Fin 1) # JFloat (Fin 2) # [JFloat (Fin 99)]))
           = Inr (Fin 1, Fin 2)"
    by blast
  with f1 f2 have c: "convert_reading (\<lambda>s. None)
      (JArr [JFloat (Fin 1), JFloat (Fin 2), JFloat (Fin 99)]) = Inr (Fin 1, Fin 2)"
    by simp
  have ne: "[JArr [JFloat (Fin 1), JFloat (Fin 2), JFloat (Fin 99)]] \<noteq> []"
    and len: "length [JArr [JFloat (Fin 1), JFloat (Fin 2), JFloat (Fin 99)]]
        = length [JArr [JFloat (Fin 3), JFloat (Fin 4), JStr ''extra'', JNull]]"
    by simp_all
  have o: "list_all2 (\<lambda>r p. \<exists>a b. py_subscript r 0 = Inr a \<and> py_float (\<lambda>s. None) a = Inr (fst p)
                              \<and> py_subscript r 1 = Inr b \<and> py_float (\<lambda>s. None) b = Inr (snd p))
             [JArr [JFloat (Fin 1), JFloat (Fin 2), JFloat (Fin 99)]] [(Fin 1, Fin 2)]"
    by simp
  have p: "list_all2 (\<lambda>r p. \<exists>a b. py_subscript r 0 = Inr a \<and> py_float (\<lambda>s. None) a = Inr (fst p)
                              \<and> py_subscript r 1 = Inr b \<and> py_float (\<lambda>s. None) b = Inr (snd p))
             [JArr [JFloat (Fin 3), JFloat (Fin 4), JStr ''extra'', JNull]] [(Fin 3, Fin 4)]"
    by simp
  from t [THEN conjunct2, THEN conjunct1, THEN mp, OF ne, THEN mp, OF len, THEN mp, OF o,
          THEN mp, OF p, THEN conjunct1]
  have v: "validate_readings (\<lambda>s. None)
          (JArr [JArr [JFloat (Fin 1), JFloat (Fin 2), JFloat (Fin 99)]])
          (JArr [JArr [JFloat (Fin 3), JFloat (Fin 4), JStr ''extra'', JNull]])
        = Proceed ([(Fin 1, Fin 2)], [(Fin 3, Fin 4)])" .
  note t' = validation_truncates_extra_components
    [of "\<lambda>s. None" "[JArr [JFloat (Fin 1)]]" "[JArr [JFloat (Fin 3), JFloat (Fin 4)]]"
        _ _ _ _ _ _ _ _ _ IndexError]
  have ne': "[JArr [JFloat (Fin 1)]] \<noteq> []"
    and len': "length [JArr [JFloat (Fin 1)]] = length [JArr [JFloat (Fin 3), JFloat (Fin 4)]]"
    by simp_all
  have e: "convert_all (\<lambda>s. None) ([JArr [JFloat (Fin 1)]] @ [JArr [JFloat (Fin 3), JFloat (Fin 4)]])
        = Inl IndexError"
    by (simp add: convert_reading_def)
  from t' [THEN conjunct2, THEN conjunct2, THEN conjunct2, THEN conjunct1,
           THEN mp, OF ne', THEN mp, OF len', THEN mp, OF e]
  have r: "validate_readings (\<lambda>s. None)
          (JArr [JArr [JFloat (Fin 1)]]) (JArr [JArr [JFloat (Fin 3), JFloat (Fin 4)]])
        = Return (Jsonify [(''success'', Bool_value False),
            (''error'', Str_value ''Invalid reading format. All values must be numbers.'')] 400)"
    by simp
  have i: "convert_reading (\<lambda>s. None) (JArr [JFloat (Fin 1)]) = Inl IndexError"
    by (simp add: convert_reading_def)
  from t [THEN conjunct2, THEN conjunct2, THEN conjunct2, THEN conjunct2, THEN conjunct2,
          THEN conjunct1, THEN spec [where x = "JArr [JFloat (Fin 1)]"]] i
  have l: "length [JFloat (Fin 1)] < 2"
    by simp
  from c v e r l show ?thesis by (intro conjI)
qed

section \<open>Properties of the route\<close>

text \<open>
  Claim C2. Whenever either reading sequence is empty or the two sequences differ in
  length, the request is answered with a single validation error (status 400, the
  fields \<^verbatim>\<open>success\<close> and \<^verbatim>\<open>error\<close> only) and nothing is computed or stored: the
  pipeline is not called and no row is written, the state is unchanged. (Without a
  session the route redirects to the login page before it reads the request; the state
  is unchanged there too.)
\<close>

theorem empty_or_mismatched_readings_rejected:
  assumes "parse_input (get_json req) = Inr (JArr xs, JArr ys, g, c)"
      and "xs = [] \<or> ys = [] \<or> length xs \<noteq> length ys"
  shows "fluid_calculate ev req st =
           (case session_user_id req of
              None \<Rightarrow> Redirect ''login''
            | Some uid \<Rightarrow>
                Jsonify [(''success'', Bool_value False),
                         (''error'', Str_value
                            (if xs = [] \<or> ys = [] then ''No readings provided''
                             else ''Mismatched number of orifice and pitot readings''))] 400,
            st)"
proof (cases "session_user_id req")
  case None
  then show ?thesis by (simp add: fluid_calculate_no_session)
next
  case (Some uid)
  from assms(2) have "validate_readings (float_of_str ev) (JArr xs) (JArr ys) =
      Return (error_response (Str_value
         (if xs = [] \<or> ys = [] then ''No readings provided''
          else ''Mismatched number of orifice and pitot readings'')))"
    by (auto simp: validate_readings_def)
  from fluid_calculate_Return [OF Some assms(1) this] Some show ?thesis
    by (simp add: error_response_def)
qed

text \<open>Three orifice readings against two pitot readings, from a logged-in user.\<close>

theorem empty_or_mismatched_readings_rejected_witness:
  "parse_input (get_json
      \<lparr>session_user_id = Some 7,
       get_json = Inr (JObj
         [(''orifice_readings'',
             JArr [JArr [JFloat (Fin 1), JFloat (Fin 1)], JArr [JFloat (Fin 2), JFloat (Fin 2)],
                   JArr [JFloat (Fin 3), JFloat (Fin 3)]]),
          (''pitot_readings'',
             JArr [JArr [JFloat (Fin 1), JFloat (Fin 1)], JArr [JFloat (Fin 2), JFloat (Fin 2)]])])\<rparr>)
    = Inr (JArr [JArr [JFloat (Fin 1), JFloat (Fin 1)], JArr [JFloat (Fin 2), JFloat (Fin 2)],
                 JArr [JFloat (Fin 3), JFloat (Fin 3)]],
           JArr [JArr [JFloat (Fin 1), JFloat (Fin 1)], JArr [JFloat (Fin 2), JFloat (Fin 2)]],
           JArr [JStr ''V0'', JStr ''Vp''], JNull)
   \<and> fluid_calculate
        \<lparr>float_of_str = (\<lambda>s. None), process_experiment_data = (\<lambda>os ps labels c. Inr [])\<rparr>
        \<lparr>session_user_id = Some 7,
         get_json = Inr (JObj
           [(''orifice_readings'',
               JArr [JArr [JFloat (Fin 1), JFloat (Fin 1)], JArr [JFloat (Fin 2), JFloat (Fin 2)],
                     JArr [JFloat (Fin 3), JFloat (Fin 3)]]),
            (''pitot_readings'',
               JArr [JArr [JFloat (Fin 1), JFloat (Fin 1)], JArr [JFloat (Fin 2), JFloat (Fin 2)]])])\<rparr>
        \<lparr>activity_logs = [], calculations = [], pipeline_calls = []\<rparr>
      = (Jsonify [(''success'', Bool_value False),
                  (''error'', Str_value ''Mismatched number of orifice and pitot readings'')] 400,
         \<lparr>activity_logs = [], calculations = [], pipeline_calls = []\<rparr>)"
proof -
  have p: "parse_input (get_json
      \<lparr>session_user_id = Some 7,
       get_json = Inr (JObj
         [(''orifice_readings'',
             JArr [JArr [JFloat (Fin 1), JFloat (Fin 1)], JArr [JFloat (Fin 2), JFloat (Fin 2)],
                   JArr [JFloat (Fin 3), JFloat (Fin 3)]]),
          (''pitot_readings'',
             JArr [JArr [JFloat (Fin 1), JFloat (Fin 1)], JArr [JFloat (Fin 2), JFloat (Fin 2)]])])\<rparr>)
    = Inr (JArr [JArr [JFloat (Fin 1), JFloat (Fin 1)], JArr [JFloat (Fin 2), JFloat (Fin 2)],
                 JArr [JFloat (Fin 3), JFloat (Fin 3)]],
           JArr [JArr [JFloat (Fin 1), JFloat (Fin 1)], JArr [JFloat (Fin 2), JFloat (Fin 2)]],
           JArr [JStr ''V0'', JStr ''Vp''], JNull)"
    by (simp add: parse_input_def)
  have l: "[JArr [JFloat (Fin 1), JFloat (Fin 1)], JArr [JFloat (Fin 2), JFloat (Fin 2)],
             JArr [JFloat (Fin 3), JFloat (Fin 3)]] = []
     \<or> [JArr [JFloat (Fin 1), JFloat (Fin 1)], JArr [JFloat (Fin 2), JFloat (Fin 2)]] = []
     \<or> length [JArr [JFloat (Fin 1), JFloat (Fin 1)], JArr [JFloat (Fin 2), JFloat (Fin 2)],
             JArr [JFloat (Fin 3), JFloat (Fin 3)]]
        \<noteq> length [JArr [JFloat (Fin 1), JFloat (Fin 1)], JArr [JFloat (Fin 2), JFloat (Fin 2)]]"
    by simp
  from empty_or_mismatched_readings_rejected [OF p l,
      of "\<lparr>float_of_str = (\<lambda>s. None), process_experiment_data = (\<lambda>os ps labels c. Inr [])\<rparr>"
         "\<lparr>activity_logs = [], calculations = [], pipeline_calls = []\<rparr>"]
  have "fluid_calculate
        \<lparr>float_of_str = (\<lambda>s. None), process_experiment_data = (\<lambda>os ps labels c. Inr [])\<rparr>
        \<lparr>session_user_id = Some 7,
         get_json = Inr (JObj
           [(''orifice_readings'',
               JArr [JArr [JFloat (Fin 1), JFloat (Fin 1)], JArr [JFloat (Fin 2), JFloat (Fin 2)],
                     JArr [JFloat (Fin 3), JFloat (Fin 3)]]),
            (''pitot_readings'',
               JArr [JArr [JFloat (Fin 1), JFloat (Fin 1)], JArr [JFloat (Fin 2), JFloat (Fin 2)]])])\<rparr>
        \<lparr>activity_logs = [], calculations = [], pipeline_calls = []\<rparr>
      = (Jsonify [(''success'', Bool_value False),
                  (''error'', Str_value ''Mismatched number of orifice and pitot readings'')] 400,
         \<lparr>activity_logs = [], calculations = [], pipeline_calls = []\<rparr>)"
    by simp
  with p show ?thesis by (intro conjI)
qed

lemma validate_readings_unconvertible:
  assumes "r \<in> set (xs @ ys)" and "convert_reading fos r = Inl e"
  shows "validate_readings fos (JArr xs) (JArr ys) \<noteq> Proceed (os, ps)"
proof
  assume "validate_readings fos (JArr xs) (JArr ys) = Proceed (os, ps)"
  from validate_readings_Proceed [OF this]
  have o: "convert_all fos xs = Inr os" and p: "convert_all fos ys = Inr ps"
    by (simp_all add: convert_readings_def)
  from o have "\<forall>r \<in> set xs. \<exists>p. convert_reading fos r = Inr p"
    using convert_all_Inr_iff [of fos xs] by blast
  moreover from p have "\<forall>r \<in> set ys. \<exists>p. convert_reading fos r = Inr p"
    using convert_all_Inr_iff [of fos ys] by blast
  ultimately have "\<exists>p. convert_reading fos r = Inr p"
    using assms(1) by auto
  with assms(2) show False by simp
qed

text \<open>
  Claim C3, as the code has it. Validation fails whenever some element of either
  sequence cannot be converted to a pair of floats, that is when \<^verbatim>\<open>float(r[0])\<close> or
  \<^verbatim>\<open>float(r[1])\<close> raises: the request is answered with a single error response and
  the state is unchanged, so nothing is computed. Finiteness is not checked: when the two
  sequences (non-empty, of equal length) consist of pairs of floats, whatever floats
  they are, infinities and not-a-number included, the validation succeeds with exactly
  those pairs, the pipeline is called with them, and the answer of the route is made
  from what the pipeline returns for them.
\<close>

theorem unconvertible_element_rejected:
  "(session_user_id req = Some uid
      \<longrightarrow> parse_input (get_json req) = Inr (JArr xs, JArr ys, g, c)
      \<longrightarrow> r \<in> set (xs @ ys)
      \<longrightarrow> convert_reading (float_of_str ev) r = Inl e
      \<longrightarrow> (\<exists>msg. fluid_calculate ev req st =
             (Jsonify [(''success'', Bool_value False), (''error'', msg)] 400, st)))
   \<and> convert_reading (float_of_str ev) (JArr [JFloat a, JFloat b]) = Inr (a, b)
   \<and> (os \<noteq> [] \<longrightarrow> length os = length ps
      \<longrightarrow> validate_readings (float_of_str ev)
            (JArr (map (\<lambda>p. JArr [JFloat (fst p), JFloat (snd p)]) os))
            (JArr (map (\<lambda>p. JArr [JFloat (fst p), JFloat (snd p)]) ps)) = Proceed (os, ps)
          \<and> (session_user_id req' = Some uid
               \<longrightarrow> parse_input (get_json req') =
                     Inr (JArr (map (\<lambda>p. JArr [JFloat (fst p), JFloat (snd p)]) os),
                          JArr (map (\<lambda>p. JArr [JFloat (fst p), JFloat (snd p)]) ps), g, c)
               \<longrightarrow> py_iter g = Inr labels
               \<longrightarrow> pipeline_calls (snd (fluid_calculate ev req' st)) =
                     pipeline_calls st @ [(os, ps, labels, c)]
                   \<and> fst (fluid_calculate ev req' st) =
                       (case process_experiment_data ev os ps labels c of
                          Inl e \<Rightarrow> error_response (Str_of_exn e)
                        | Inr result \<Rightarrow>
                            (case success_response result of
                               Inl e \<Rightarrow> error_response (Str_of_exn e)
                             | Inr resp \<Rightarrow> resp))))"
proof (intro conjI impI)
  assume u: "session_user_id req = Some uid"
    and p: "parse_input (get_json req) = Inr (JArr xs, JArr ys, g, c)"
    and m: "r \<in> set (xs @ ys)"
    and f: "convert_reading (float_of_str ev) r = Inl e"
  from validate_readings_unconvertible [OF m f]
  have np: "\<forall>os ps. validate_readings (float_of_str ev) (JArr xs) (JArr ys) \<noteq> Proceed (os, ps)"
    by blast
  from validate_readings_cases [of "float_of_str ev" "JArr xs" "JArr ys"] np
  consider e' where "validate_readings (float_of_str ev) (JArr xs) (JArr ys) = Raise e'"
    | msg where "validate_readings (float_of_str ev) (JArr xs) (JArr ys) = Return (error_response msg)"
    by blast
  then show "\<exists>msg. fluid_calculate ev req st =
            (Jsonify [(''success'', Bool_value False), (''error'', msg)] 400, st)"
  proof cases
    case 1
    from fluid_calculate_Raise [OF u p 1] show ?thesis
      by (simp add: error_response_def)
  next
    case 2
    from fluid_calculate_Return [OF u p 2] show ?thesis
      by (simp add: error_response_def)
  qed
next
  show "convert_reading (float_of_str ev) (JArr [JFloat a, JFloat b]) = Inr (a, b)"
    by (simp add: convert_reading_def)
next
  assume ne: "os \<noteq> []" and len: "length os = length ps"
  let ?mk = "\<lambda>p :: pyfloat \<times> pyfloat. JArr [JFloat (fst p), JFloat (snd p)]"
  from ne have ne': "map ?mk os \<noteq> []" by simp
  from len have len': "length (map ?mk os) = length (map ?mk ps)" by simp
  show v: "validate_readings (float_of_str ev) (JArr (map ?mk os)) (JArr (map ?mk ps))
      = Proceed (os, ps)"
    by (rule validate_readings_converted [OF ne' len' convert_all_float_pairs
          convert_all_float_pairs])
  assume u: "session_user_id req' = Some uid"
    and pi: "parse_input (get_json req') = Inr (JArr (map ?mk os), JArr (map ?mk ps), g, c)"
    and l: "py_iter g = Inr labels"
  show "pipeline_calls (snd (fluid_calculate ev req' st)) =
          pipeline_calls st @ [(os, ps, labels, c)]"
    by (rule fluid_calculate_applies_pipeline(2) [OF u pi v l])
  show "fst (fluid_calculate ev req' st) =
          (case process_experiment_data ev os ps labels c of
             Inl e \<Rightarrow> error_response (Str_of_exn e)
           | Inr result \<Rightarrow>
               (case success_response result of
                  Inl e \<Rightarrow> error_response (Str_of_exn e)
                | Inr resp \<Rightarrow> resp))"
    by (rule fluid_calculate_applies_pipeline(1) [OF u pi v l])
qed

text \<open>
  A reading whose second component is the string \<^verbatim>\<open>abc\<close> is rejected; readings of
  infinities and not-a-number are accepted and answered from the pipeline's result.
\<close>

theorem unconvertible_element_rejected_witness:
  "convert_reading (\<lambda>s. None) (JArr [JFloat (Fin 1), JStr ''abc'']) = Inl ValueError
   \<and> (\<exists>msg. fluid_calculate
        \<lparr>float_of_str = (\<lambda>s. None),
         process_experiment_data = (\<lambda>os ps labels c. Inr
           [(''results'', JArr []), (''mean_cv'', JFloat NaN),
            (''model_calculation'', JStr ''''), (''graph_base64'', JStr ''''),
            (''pdf_base64'', JStr '''')])\<rparr>
        \<lparr>session_user_id = Some 7,
         get_json = Inr (JObj
           [(''orifice_readings'', JArr [JArr [JFloat (Fin 1), JStr ''abc'']]),
            (''pitot_readings'', JArr [JArr [JFloat (Fin 1), JFloat (Fin 2)]])])\<rparr>
        \<lparr>activity_logs = [], calculations = [], pipeline_calls = []\<rparr>
      = (Jsonify [(''success'', Bool_value False), (''error'', msg)] 400,
         \<lparr>activity_logs = [], calculations = [], pipeline_calls = []\<rparr>))
   \<and> validate_readings (\<lambda>s. None)
        (JArr [JArr [JFloat PInf, JFloat NaN]]) (JArr [JArr [JFloat NInf, JFloat (Fin 1)]])
      = Proceed ([(PInf, NaN)], [(NInf, Fin 1)])
   \<and> pipeline_calls (snd (fluid_calculate
        \<lparr>float_of_str = (\<lambda>s. None),
         process_experiment_data = (\<lambda>os ps labels c. Inr
           [(''results'', JArr []), (''mean_cv'', JFloat NaN),
            (''model_calculation'', JStr ''''), (''graph_base64'', JStr ''''),
            (''pdf_base64'', JStr '''')])\<rparr>
        \<lparr>session_user_id = Some 7,
         get_json = Inr (JObj
           [(''orifice_readings'', JArr [JArr [JFloat PInf, JFloat NaN]]),
            (''pitot_readings'', JArr [JArr [JFloat NInf, JFloat (Fin 1)]])])\<rparr>
        \<lparr>activity_logs = [], calculations = [], pipeline_calls = []\<rparr>))
      = [([(PInf, NaN)], [(NInf, Fin 1)], [JStr ''V0'', JStr ''Vp''], JNull)]
   \<and> fst (fluid_calculate
        \<lparr>float_of_str = (\<lambda>s. None),
         process_experiment_data = (\<lambda>os ps labels c. Inr
           [(''results'', JArr []), (''mean_cv'', JFloat NaN),
            (''model_calculation'', JStr ''''), (''graph_base64'', JStr ''''),
            (''pdf_base64'', JStr '''')])\<rparr>
        \<lparr>session_user_id = Some 7,
         get_json = Inr (JObj
           [(''orifice_readings'', JArr [JArr [JFloat PInf, JFloat NaN]]),
            (''pitot_readings'', JArr [JArr [JFloat NInf, JFloat (Fin 1)]])])\<rparr>
        \<lparr>activity_logs = [], calculations = [], pipeline_calls = []\<rparr>)
      = Jsonify [(''success'', Bool_value True),
                 (''results'', Json_value (JArr [])),
                 (''mean_cv'', Json_value (JFloat NaN)),
                 (''model_calculation'', Json_value (JStr '''')),
                 (''graph_base64'', Json_value (JStr '''')),
                 (''pdf_base64'', Json_value (JStr ''''))] 200"
proof -
  let ?ev = "\<lparr>float_of_str = (\<lambda>s. None),
         process_experiment_data = (\<lambda>os ps labels c. Inr
           [(''results'', JArr []), (''mean_cv'', JFloat NaN),
            (''model_calculation'', JStr ''''), (''graph_base64'', JStr ''''),
            (''pdf_base64'', JStr '''')])\<rparr>"
  let ?req = "\<lparr>session_user_id = Some 7,
         get_json = Inr (JObj
           [(''orifice_readings'', JArr [JArr [JFloat (Fin 1), JStr ''abc'']]),
            (''pitot_readings'', JArr [JArr [JFloat (Fin 1), JFloat (Fin 2)]])])\<rparr>"
  let ?req' = "\<lparr>session_user_id = Some 7,
         get_json = Inr (JObj
           [(''orifice_readings'', JArr [JArr [JFloat PInf, JFloat NaN]]),
            (''pitot_readings'', JArr [JArr [JFloat NInf, JFloat (Fin 1)]])])\<rparr>"
  let ?st = "\<lparr>activity_logs = [], calculations = [], pipeline_calls = []\<rparr>"
  let ?mk = "\<lambda>p :: pyfloat \<times> pyfloat. JArr [JFloat (fst p), JFloat (snd p)]"
  have s: "session_user_id ?req = Some 7"
    by simp
  have p: "parse_input (get_json ?req)
    = Inr (JArr [JArr [JFloat (Fin 1), JStr ''abc'']],
           JArr [JArr [JFloat (Fin 1), JFloat (Fin 2)]],
           JArr [JStr ''V0'', JStr ''Vp''], JNull)"
    by (simp add: parse_input_def)
  have m: "JArr [JFloat (Fin 1), JStr ''abc'']
      \<in> set ([JArr [JFloat (Fin 1), JStr ''abc'']] @ [JArr [JFloat (Fin 1), JFloat (Fin 2)]])"
    by simp
  have c: "convert_reading (float_of_str ?ev) (JArr [JFloat (Fin 1), JStr ''abc'']) = Inl ValueError"
    by (simp add: convert_reading_def)
  note t = unconvertible_element_rejected
  from t [THEN conjunct1, THEN mp, OF s, THEN mp, OF p, THEN mp, OF m, THEN mp, OF c]
  have rej: "\<exists>msg. fluid_calculate ?ev ?req ?st =
      (Jsonify [(''success'', Bool_value False), (''error'', msg)] 400, ?st)" .
  from c have c': "convert_reading (\<lambda>s. None) (JArr [JFloat (Fin 1), JStr ''abc'']) = Inl ValueError"
    by simp
  have ne: "[(PInf, NaN)] \<noteq> []"
    and len: "length [(PInf, NaN)] = length [(NInf, Fin 1)]"
    by simp_all
  note acc = t [THEN conjunct2, THEN conjunct2, THEN mp, OF ne, THEN mp, OF len]
  from acc [THEN conjunct1, of ?ev]
  have v: "validate_readings (\<lambda>s. None)
        (JArr [JArr [JFloat PInf, JFloat NaN]]) (JArr [JArr [JFloat NInf, JFloat (Fin 1)]])
      = Proceed ([(PInf, NaN)], [(NInf, Fin 1)])"
    by simp
  have s': "session_user_id ?req' = Some 7"
    by simp
  have p': "parse_input (get_json ?req')
    = Inr (JArr (map ?mk [(PInf, NaN)]), JArr (map ?mk [(NInf, Fin 1)]),
           JArr [JStr ''V0'', JStr ''Vp''], JNull)"
    by (simp add: parse_input_def)
  have l: "py_iter (JArr [JStr ''V0'', JStr ''Vp'']) = Inr [JStr ''V0'', JStr ''Vp'']"
    by simp
  note route = acc [THEN conjunct2, THEN mp, OF s', THEN mp, OF p', THEN mp, OF l, of ?ev ?st]
  from route [THEN conjunct1]
  have calls: "pipeline_calls (snd (fluid_calculate ?ev ?req' ?st))
      = [([(PInf, NaN)], [(NInf, Fin 1)], [JStr ''V0'', JStr ''Vp''], JNull)]"
    by simp
  from route [THEN conjunct2]
  have resp: "fst (fluid_calculate ?ev ?req' ?st)
      = Jsonify [(''success'', Bool_value True),
                 (''results'', Json_value (JArr [])),
                 (''mean_cv'', Json_value (JFloat NaN)),
                 (''model_calculation'', Json_value (JStr '''')),
                 (''graph_base64'', Json_value (JStr '''')),
                 (''pdf_base64'', Json_value (JStr ''''))] 200"
    by (simp add: success_response_def py_item_def)
  from c' rej v calls resp show ?thesis by (intro conjI)
qed

text \<open>
  The claim as the spec states it fails: a request whose readings carry infinities and
  not-a-number passes the validation, and the pipeline is called with them.
\<close>

theorem nonfinite_readings_accepted:
  "validate_readings (\<lambda>s. None)
       (JArr [JArr [JFloat PInf, JFloat NaN]]) (JArr [JArr [JFloat NInf, JFloat (Fin 1)]])
     = Proceed ([(PInf, NaN)], [(NInf, Fin 1)])
   \<and> pipeline_calls (snd (fluid_calculate
        \<lparr>float_of_str = (\<lambda>s. None),
         process_experiment_data = (\<lambda>os ps labels c. Inl (Raised ''no fit''))\<rparr>
        \<lparr>session_user_id = Some 7,
         get_json = Inr (JObj
           [(''orifice_readings'', JArr [JArr [JFloat PInf, JFloat NaN]]),
            (''pitot_readings'', JArr [JArr [JFloat NInf, JFloat (Fin 1)]])])\<rparr>
        \<lparr>activity_logs = [], calculations = [], pipeline_calls = []\<rparr>))
     = [([(PInf, NaN)], [(NInf, Fin 1)], [JStr ''V0'', JStr ''Vp''], JNull)]"
proof -
  have v: "validate_readings (\<lambda>s. None)
       (JArr [JArr [JFloat PInf, JFloat NaN]]) (JArr [JArr [JFloat NInf, JFloat (Fin 1)]])
     = Proceed ([(PInf, NaN)], [(NInf, Fin 1)])"
    by (simp add: validate_readings_def convert_readings_def convert_reading_def)
  have "pipeline_calls (snd (fluid_calculate
        \<lparr>float_of_str = (\<lambda>s. None),
         process_experiment_data = (\<lambda>os ps labels c. Inl (Raised ''no fit''))\<rparr>
        \<lparr>session_user_id = Some 7,
         get_json = Inr (JObj
           [(''orifice_readings'', JArr [JArr [JFloat PInf, JFloat NaN]]),
            (''pitot_readings'', JArr [JArr [JFloat NInf, JFloat (Fin 1)]])])\<rparr>
        \<lparr>activity_logs = [], calculations = [], pipeline_calls = []\<rparr>))
     = [([(PInf, NaN)], [(NInf, Fin 1)], [JStr ''V0'', JStr ''Vp''], JNull)]"
    by (simp add: fluid_calculate_def try_block_def parse_input_def v process_and_store_def)
  with v show ?thesis by (intro conjI)
qed

text \<open>
  Claim C8. On every successful invocation (the route answers with status 200), exactly
  one \<^verbatim>\<open>Calculation\<close> row is added to the ones there were: its \<^verbatim>\<open>mass_needed\<close> is the
  \<^verbatim>\<open>mean_cv\<close> of the response, its \<^verbatim>\<open>reagent\<close> label is \<^verbatim>\<open>Pitot Tube Experiment\<close>,
  and it belongs to the user of the session.
\<close>

theorem success_stores_one_calculation:
  assumes "fluid_calculate ev req st = (Jsonify body 200, st')"
  shows "\<exists>uid m. session_user_id req = Some uid
           \<and> map_of body ''success'' = Some (Bool_value True)
           \<and> map_of body ''mean_cv'' = Some (Json_value m)
           \<and> calculations st' = calculations st @
                [\<lparr>calc_user_id = uid, reagent = ''Pitot Tube Experiment'',
                  formula = ''Cv = V0/Vp'', molarity = 0, volume = 0, mass_needed = m\<rparr>]"
proof -
  from assms have f: "fst (fluid_calculate ev req st) = Jsonify body 200"
    and s: "snd (fluid_calculate ev req st) = st'"
    by simp_all
  from fluid_calculate_outcomes [of ev req st] show ?thesis
  proof (elim disjE exE conjE)
    assume "fluid_calculate ev req st = (Redirect ''login'', st)"
    with f show ?thesis by simp
  next
    fix msg
    assume "fst (fluid_calculate ev req st) =
         Jsonify [(''success'', Bool_value False), (''error'', msg)] 400"
    with f show ?thesis by simp
  next
    fix uid r m mc gb pb
    assume u: "session_user_id req = Some uid"
      and b: "fst (fluid_calculate ev req st) =
             Jsonify [(''success'', Bool_value True),
                      (''results'', Json_value r),
                      (''mean_cv'', Json_value m),
                      (''model_calculation'', Json_value mc),
                      (''graph_base64'', Json_value gb),
                      (''pdf_base64'', Json_value pb)] 200"
      and c: "calculations (snd (fluid_calculate ev req st)) =
             calculations st @
               [\<lparr>calc_user_id = uid, reagent = ''Pitot Tube Experiment'',
                 formula = ''Cv = V0/Vp'', molarity = 0, volume = 0, mass_needed = m\<rparr>]"
    from f b have body: "body = [(''success'', Bool_value True),
                      (''results'', Json_value r),
                      (''mean_cv'', Json_value m),
                      (''model_calculation'', Json_value mc),
                      (''graph_base64'', Json_value gb),
                      (''pdf_base64'', Json_value pb)]"
      by simp
    have "session_user_id req = Some uid
           \<and> map_of body ''success'' = Some (Bool_value True)
           \<and> map_of body ''mean_cv'' = Some (Json_value m)
           \<and> calculations st' = calculations st @
                [\<lparr>calc_user_id = uid, reagent = ''Pitot Tube Experiment'',
                  formula = ''Cv = V0/Vp'', molarity = 0, volume = 0, mass_needed = m\<rparr>]"
      using u c s by (simp add: body)
    then show ?thesis by (intro exI)
  qed
qed

text \<open>
  One orifice and one pitot reading from the user 7, with a pipeline that returns a
  complete result whose \<^verbatim>\<open>mean_cv\<close> is 2.
\<close>

theorem success_stores_one_calculation_witness:
  "fluid_calculate
      \<lparr>float_of_str = (\<lambda>s. None),
       process_experiment_data = (\<lambda>os ps labels c. Inr
         [(''results'', JArr []), (''mean_cv'', JFloat (Fin 2)),
          (''model_calculation'', JStr ''V0 = 2 Vp''), (''graph_base64'', JStr ''''),
          (''pdf_base64'', JStr '''')])\<rparr>
      \<lparr>session_user_id = Some 7,
       get_json = Inr (JObj
         [(''orifice_readings'', JArr [JArr [JFloat (Fin 4), JFloat (Fin 4)]]),
          (''pitot_readings'', JArr [JArr [JFloat (Fin 2), JFloat (Fin 2)]])])\<rparr>
      \<lparr>activity_logs = [], calculations = [], pipeline_calls = []\<rparr>
    = (Jsonify [(''success'', Bool_value True),
                (''results'', Json_value (JArr [])),
                (''mean_cv'', Json_value (JFloat (Fin 2))),
                (''model_calculation'', Json_value (JStr ''V0 = 2 Vp'')),
                (''graph_base64'', Json_value (JStr '''')),
                (''pdf_base64'', Json_value (JStr ''''))] 200,
       \<lparr>activity_logs =
          [\<lparr>log_user_id = 7, action_type = ''Fluid Calculation'',
            description = ''Pitot Tube experiment with 1 readings''\<rparr>],
        calculations =
          [\<lparr>calc_user_id = 7, reagent = ''Pitot Tube Experiment'', formula = ''Cv = V0/Vp'',
            molarity = 0, volume = 0, mass_needed = JFloat (Fin 2)\<rparr>],
        pipeline_calls =
          [([(Fin 4, Fin 4)], [(Fin 2, Fin 2)], [JStr ''V0'', JStr ''Vp''], JNull)]\<rparr>)
   \<and> (\<exists>uid m.
         Some (7::nat) = Some uid
         \<and> Some (Json_value (JFloat (Fin 2))) = Some (Json_value m)
         \<and> [\<lparr>calc_user_id = 7, reagent = ''Pitot Tube Experiment'', formula = ''Cv = V0/Vp'',
              molarity = 0, volume = 0, mass_needed = JFloat (Fin 2)\<rparr>]
            = [] @ [\<lparr>calc_user_id = uid, reagent = ''Pitot Tube Experiment'',
                    formula = ''Cv = V0/Vp'', molarity = 0, volume = 0, mass_needed = m\<rparr>])"
proof -
  have one: "string_of_nat (Suc 0) = ''1''"
    by (simp add: string_of_nat.simps)
  have v: "validate_readings (\<lambda>s. None)
       (JArr [JArr [JFloat (Fin 4), JFloat (Fin 4)]]) (JArr [JArr [JFloat (Fin 2), JFloat (Fin 2)]])
     = Proceed ([(Fin 4, Fin 4)], [(Fin 2, Fin 2)])"
    by (simp add: validate_readings_def convert_readings_def convert_reading_def)
  have e: "fluid_calculate
      \<lparr>float_of_str = (\<lambda>s. None),
       process_experiment_data = (\<lambda>os ps labels c. Inr
         [(''results'', JArr []), (''mean_cv'', JFloat (Fin 2)),
          (''model_calculation'', JStr ''V0 = 2 Vp''), (''graph_base64'', JStr ''''),
          (''pdf_base64'', JStr '''')])\<rparr>
      \<lparr>session_user_id = Some 7,
       get_json = Inr (JObj
         [(''orifice_readings'', JArr [JArr [JFloat (Fin 4), JFloat (Fin 4)]]),
          (''pitot_readings'', JArr [JArr [JFloat (Fin 2), JFloat (Fin 2)]])])\<rparr>
      \<lparr>activity_logs = [], calculations = [], pipeline_calls = []\<rparr>
    = (Jsonify [(''success'', Bool_value True),
                (''results'', Json_value (JArr [])),
                (''mean_cv'', Json_value (JFloat (Fin 2))),
                (''model_calculation'', Json_value (JStr ''V0 = 2 Vp'')),
                (''graph_base64'', Json_value (JStr '''')),
                (''pdf_base64'', Json_value (JStr ''''))] 200,
       \<lparr>activity_logs =
          [\<lparr>log_user_id = 7, action_type = ''Fluid Calculation'',
            description = ''Pitot Tube experiment with 1 readings''\<rparr>],
        calculations =
          [\<lparr>calc_user_id = 7, reagent = ''Pitot Tube Experiment'', formula = ''Cv = V0/Vp'',
            molarity = 0, volume = 0, mass_needed = JFloat (Fin 2)\<rparr>],
        pipeline_calls =
          [([(Fin 4, Fin 4)], [(Fin 2, Fin 2)], [JStr ''V0'', JStr ''Vp''], JNull)]\<rparr>)"
    by (simp add: fluid_calculate_def try_block_def parse_input_def v process_and_store_def
          success_response_def py_item_def log_activity_def one)
  from success_stores_one_calculation [OF e] have
    "\<exists>uid m.
         Some (7::nat) = Some uid
         \<and> Some (Json_value (JFloat (Fin 2))) = Some (Json_value m)
         \<and> [\<lparr>calc_user_id = 7, reagent = ''Pitot Tube Experiment'', formula = ''Cv = V0/Vp'',
              molarity = 0, volume = 0, mass_needed = JFloat (Fin 2)\<rparr>]
            = [] @ [\<lparr>calc_user_id = uid, reagent = ''Pitot Tube Experiment'',
                    formula = ''Cv = V0/Vp'', molarity = 0, volume = 0, mass_needed = m\<rparr>]"
    by simp
  with e show ?thesis by (intro conjI)
qed

text \<open>
  Claim C5. The caller never receives a half-built report: every response is the
  redirect to the login page, an error response of status 400 with exactly the fields
  \<^verbatim>\<open>success\<close> and \<^verbatim>\<open>error\<close>, or the complete success response with all five result
  fields. Whenever a stage fails (the validation does not let the request through, the
  label tuple cannot be built, or \<^verbatim>\<open>process_experiment_data\<close>, which holds the
  estimation, fitting, rendering and report stages, raises) the response is the error
  response, which has none of the fields \<^verbatim>\<open>results\<close>, \<^verbatim>\<open>mean_cv\<close>,
  \<^verbatim>\<open>model_calculation\<close>, \<^verbatim>\<open>graph_base64\<close>, \<^verbatim>\<open>pdf_base64\<close>.
\<close>

theorem stage_failure_single_error:
  "(fst (fluid_calculate ev req st) = Redirect ''login''
    \<or> (\<exists>msg. fst (fluid_calculate ev req st) =
          Jsonify [(''success'', Bool_value False), (''error'', msg)] 400)
    \<or> (\<exists>r m mc gb pb. fst (fluid_calculate ev req st) =
          Jsonify [(''success'', Bool_value True),
                   (''results'', Json_value r),
                   (''mean_cv'', Json_value m),
                   (''model_calculation'', Json_value mc),
                   (''graph_base64'', Json_value gb),
                   (''pdf_base64'', Json_value pb)] 200))
   \<and> (session_user_id req = Some uid
        \<longrightarrow> parse_input (get_json req) = Inr (orifice, pitot, g, c)
        \<longrightarrow> ((\<forall>os ps. validate_readings (float_of_str ev) orifice pitot \<noteq> Proceed (os, ps))
             \<or> (\<exists>os ps e. validate_readings (float_of_str ev) orifice pitot = Proceed (os, ps)
                   \<and> (py_iter g = Inl e
                        \<or> (\<exists>labels. py_iter g = Inr labels
                              \<and> process_experiment_data ev os ps labels c = Inl e))))
        \<longrightarrow> (\<exists>msg body. fst (fluid_calculate ev req st) = Jsonify body 400
               \<and> body = [(''success'', Bool_value False), (''error'', msg)]
               \<and> map_of body ''results'' = None
               \<and> map_of body ''mean_cv'' = None
               \<and> map_of body ''model_calculation'' = None
               \<and> map_of body ''graph_base64'' = None
               \<and> map_of body ''pdf_base64'' = None))"
proof (intro conjI impI)
  from fluid_calculate_outcomes [of ev req st]
  show "fst (fluid_calculate ev req st) = Redirect ''login''
    \<or> (\<exists>msg. fst (fluid_calculate ev req st) =
          Jsonify [(''success'', Bool_value False), (''error'', msg)] 400)
    \<or> (\<exists>r m mc gb pb. fst (fluid_calculate ev req st) =
          Jsonify [(''success'', Bool_value True),
                   (''results'', Json_value r),
                   (''mean_cv'', Json_value m),
                   (''model_calculation'', Json_value mc),
                   (''graph_base64'', Json_value gb),
                   (''pdf_base64'', Json_value pb)] 200)"
  proof (elim disjE exE conjE)
    assume "fluid_calculate ev req st = (Redirect ''login'', st)"
    then show ?thesis by simp
  next
    fix msg
    assume "fst (fluid_calculate ev req st) =
          Jsonify [(''success'', Bool_value False), (''error'', msg)] 400"
    then show ?thesis by (intro disjI2 disjI1 exI)
  next
    fix uid' r m mc gb pb
    assume "fst (fluid_calculate ev req st) =
          Jsonify [(''success'', Bool_value True),
                   (''results'', Json_value r),
                   (''mean_cv'', Json_value m),
                   (''model_calculation'', Json_value mc),
                   (''graph_base64'', Json_value gb),
                   (''pdf_base64'', Json_value pb)] 200"
    then show ?thesis by (intro disjI2 exI)
  qed
next
  assume u: "session_user_id req = Some uid"
    and p: "parse_input (get_json req) = Inr (orifice, pitot, g, c)"
    and fail: "(\<forall>os ps. validate_readings (float_of_str ev) orifice pitot \<noteq> Proceed (os, ps))
             \<or> (\<exists>os ps e. validate_readings (float_of_str ev) orifice pitot = Proceed (os, ps)
                   \<and> (py_iter g = Inl e
                        \<or> (\<exists>labels. py_iter g = Inr labels
                              \<and> process_experiment_data ev os ps labels c = Inl e)))"
  have "\<exists>msg. fst (fluid_calculate ev req st) = error_response msg"
    using fail
  proof (elim disjE exE conjE)
    assume np: "\<forall>os ps. validate_readings (float_of_str ev) orifice pitot \<noteq> Proceed (os, ps)"
    from validate_readings_cases [of "float_of_str ev" orifice pitot] np
    consider e where "validate_readings (float_of_str ev) orifice pitot = Raise e"
      | msg where "validate_readings (float_of_str ev) orifice pitot = Return (error_response msg)"
      by blast
    then show ?thesis
    proof cases
      case 1
      from fluid_calculate_Raise [OF u p 1, of st]
      have "fst (fluid_calculate ev req st) = error_response (Str_of_exn e)" by simp
      then show ?thesis ..
    next
      case 2
      from fluid_calculate_Return [OF u p 2, of st]
      have "fst (fluid_calculate ev req st) = error_response msg" by simp
      then show ?thesis ..
    qed
  next
    fix os ps e
    assume v: "validate_readings (float_of_str ev) orifice pitot = Proceed (os, ps)"
      and "py_iter g = Inl e"
    then have "fst (fluid_calculate ev req st) = error_response (Str_of_exn e)"
      by (simp add: fluid_calculate_Proceed_fst_snd(1) [OF u p v] process_and_store_tuple_error)
    then show ?thesis ..
  next
    fix os ps e labels
    assume v: "validate_readings (float_of_str ev) orifice pitot = Proceed (os, ps)"
      and "py_iter g = Inr labels" and "process_experiment_data ev os ps labels c = Inl e"
    then have "fst (fluid_calculate ev req st) = error_response (Str_of_exn e)"
      by (simp add: fluid_calculate_Proceed_fst_snd(1) [OF u p v] process_and_store_pipeline_error)
    then show ?thesis ..
  qed
  then obtain msg where "fst (fluid_calculate ev req st) = error_response msg" ..
  then have "fst (fluid_calculate ev req st) =
        Jsonify [(''success'', Bool_value False), (''error'', msg)] 400
      \<and> [(''success'', Bool_value False), (''error'', msg)]
          = [(''success'', Bool_value False), (''error'', msg)]
      \<and> map_of [(''success'', Bool_value False), (''error'', msg)] ''results'' = None
      \<and> map_of [(''success'', Bool_value False), (''error'', msg)] ''mean_cv'' = None
      \<and> map_of [(''success'', Bool_value False), (''error'', msg)] ''model_calculation'' = None
      \<and> map_of [(''success'', Bool_value False), (''error'', msg)] ''graph_base64'' = None
      \<and> map_of [(''success'', Bool_value False), (''error'', msg)] ''pdf_base64'' = None"
    by (simp add: error_response_def)
  then show "\<exists>msg body. fst (fluid_calculate ev req st) = Jsonify body 400
               \<and> body = [(''success'', Bool_value False), (''error'', msg)]
               \<and> map_of body ''results'' = None
               \<and> map_of body ''mean_cv'' = None
               \<and> map_of body ''model_calculation'' = None
               \<and> map_of body ''graph_base64'' = None
               \<and> map_of body ''pdf_base64'' = None"
    by (intro exI)
qed

text \<open>
  The single reading of the spec's end-to-end example, with a pipeline whose fit raises.
\<close>

theorem stage_failure_single_error_witness:
  "session_user_id
      \<lparr>session_user_id = Some 7,
       get_json = Inr (JObj
         [(''orifice_readings'', JArr [JArr [JFloat (Fin 4), JFloat (Fin 4)]]),
          (''pitot_readings'', JArr [JArr [JFloat (Fin 2), JFloat (Fin 2)]])])\<rparr> = Some 7
   \<and> validate_readings (\<lambda>s. None)
        (JArr [JArr [JFloat (Fin 4), JFloat (Fin 4)]]) (JArr [JArr [JFloat (Fin 2), JFloat (Fin 2)]])
      = Proceed ([(Fin 4, Fin 4)], [(Fin 2, Fin 2)])
   \<and> (\<exists>msg body. fst (fluid_calculate
        \<lparr>float_of_str = (\<lambda>s. None),
         process_experiment_data = (\<lambda>os ps labels c. Inl (Raised ''DegenerateFitError''))\<rparr>
        \<lparr>session_user_id = Some 7,
         get_json = Inr (JObj
           [(''orifice_readings'', JArr [JArr [JFloat (Fin 4), JFloat (Fin 4)]]),
            (''pitot_readings'', JArr [JArr [JFloat (Fin 2), JFloat (Fin 2)]])])\<rparr>
        \<lparr>activity_logs = [], calculations = [], pipeline_calls = []\<rparr>) = Jsonify body 400
      \<and> body = [(''success'', Bool_value False), (''error'', msg)]
      \<and> map_of body ''results'' = None
      \<and> map_of body ''mean_cv'' = None
      \<and> map_of body ''model_calculation'' = None
      \<and> map_of body ''graph_base64'' = None
      \<and> map_of body ''pdf_base64'' = None)"
proof -
  have s: "session_user_id
      \<lparr>session_user_id = Some 7,
       get_json = Inr (JObj
         [(''orifice_readings'', JArr [JArr [JFloat (Fin 4), JFloat (Fin 4)]]),
          (''pitot_readings'', JArr [JArr [JFloat (Fin 2), JFloat (Fin 2)]])])\<rparr> = Some 7"
    by simp
  have p: "parse_input (get_json
      \<lparr>session_user_id = Some 7,
       get_json = Inr (JObj
         [(''orifice_readings'', JArr [JArr [JFloat (Fin 4), JFloat (Fin 4)]]),
          (''pitot_readings'', JArr [JArr [JFloat (Fin 2), JFloat (Fin 2)]])])\<rparr>)
    = Inr (JArr [JArr [JFloat (Fin 4), JFloat (Fin 4)]],
           JArr [JArr [JFloat (Fin 2), JFloat (Fin 2)]],
           JArr [JStr ''V0'', JStr ''Vp''], JNull)"
    by (simp add: parse_input_def)
  have v: "validate_readings (\<lambda>s. None)
        (JArr [JArr [JFloat (Fin 4), JFloat (Fin 4)]]) (JArr [JArr [JFloat (Fin 2), JFloat (Fin 2)]])
      = Proceed ([(Fin 4, Fin 4)], [(Fin 2, Fin 2)])"
    by (simp add: validate_readings_def convert_readings_def convert_reading_def)
  have f: "(\<forall>os ps. validate_readings
        (float_of_str \<lparr>float_of_str = (\<lambda>s. None),
           process_experiment_data = (\<lambda>os ps labels c. Inl (Raised ''DegenerateFitError''))\<rparr>)
        (JArr [JArr [JFloat (Fin 4), JFloat (Fin 4)]]) (JArr [JArr [JFloat (Fin 2), JFloat (Fin 2)]])
          \<noteq> Proceed (os, ps))
     \<or> (\<exists>os ps e. validate_readings
        (float_of_str \<lparr>float_of_str = (\<lambda>s. None),
           process_experiment_data = (\<lambda>os ps labels c. Inl (Raised ''DegenerateFitError''))\<rparr>)
        (JArr [JArr [JFloat (Fin 4), JFloat (Fin 4)]]) (JArr [JArr [JFloat (Fin 2), JFloat (Fin 2)]])
          = Proceed (os, ps)
        \<and> (py_iter (JArr [JStr ''V0'', JStr ''Vp'']) = Inl e
             \<or> (\<exists>labels. py_iter (JArr [JStr ''V0'', JStr ''Vp'']) = Inr labels
                   \<and> process_experiment_data
                        \<lparr>float_of_str = (\<lambda>s. None),
                         process_experiment_data =
                           (\<lambda>os ps labels c. Inl (Raised ''DegenerateFitError''))\<rparr>
                        os ps labels JNull = Inl e)))"
    by (simp add: v)
  note t = stage_failure_single_error [THEN conjunct2, rule_format, OF s p f,
      of "\<lparr>activity_logs = [], calculations = [], pipeline_calls = []\<rparr>"]
  from s v t show ?thesis by (intro conjI)
qed

section \<open>Defaults of the optional request fields\<close>

lemma parse_input_dict:
  "parse_input (Inr (JObj kvs)) =
     Inr (case map_of kvs ''orifice_readings'' of Some v \<Rightarrow> v | None \<Rightarrow> JArr [],
          case map_of kvs ''pitot_readings'' of Some v \<Rightarrow> v | None \<Rightarrow> JArr [],
          case map_of kvs ''graph_params'' of Some v \<Rightarrow> v | None \<Rightarrow> JArr [JStr ''V0'', JStr ''Vp''],
          case map_of kvs ''constants'' of Some v \<Rightarrow> v | None \<Rightarrow> JNull)"
  by (simp add: parse_input_def)

text \<open>
  Claim C7. When the request has no \<^verbatim>\<open>graph_params\<close>, the pipeline is called with the
  two labels \<^verbatim>\<open>V0\<close> and \<^verbatim>\<open>Vp\<close>: the call is recorded and the answer of the route
  is made from what \<^verbatim>\<open>process_experiment_data\<close> returns for the validated readings,
  these two labels and the request's constants. When the request has no
  \<^verbatim>\<open>constants\<close>, the pipeline is called with \<^verbatim>\<open>None\<close> for the override, in the same
  sense; and with no override every constant has its default value (9.81 for \<^verbatim>\<open>g\<close>,
  1000 for \<^verbatim>\<open>rho\<close>, 0.61 for \<^verbatim>\<open>Cd_orifice\<close>, the area ratio for \<^verbatim>\<open>A_ratio\<close>),
  whereas a supplied override replaces the keys it has and leaves the others at their
  defaults.
\<close>

theorem omitted_parameters_use_defaults:
  assumes "session_user_id req = Some uid"
      and "get_json req = Inr (JObj kvs)"
      and "parse_input (get_json req) = Inr (orifice, pitot, g, c)"
      and "validate_readings (float_of_str ev) orifice pitot = Proceed (os, ps)"
  shows "(map_of kvs ''graph_params'' = None \<longrightarrow>
            pipeline_calls (snd (fluid_calculate ev req st)) =
              pipeline_calls st @ [(os, ps, [JStr ''V0'', JStr ''Vp''], c)]
            \<and> fst (fluid_calculate ev req st) =
                (case process_experiment_data ev os ps [JStr ''V0'', JStr ''Vp''] c of
                   Inl e \<Rightarrow> error_response (Str_of_exn e)
                 | Inr result \<Rightarrow>
                     (case success_response result of
                        Inl e \<Rightarrow> error_response (Str_of_exn e)
                      | Inr resp \<Rightarrow> resp)))
       \<and> (map_of kvs ''constants'' = None \<longrightarrow>
            c = JNull
            \<and> (\<forall>labels. py_iter g = Inr labels \<longrightarrow>
                  pipeline_calls (snd (fluid_calculate ev req st)) =
                    pipeline_calls st @ [(os, ps, labels, JNull)]
                  \<and> fst (fluid_calculate ev req st) =
                      (case process_experiment_data ev os ps labels JNull of
                         Inl e \<Rightarrow> error_response (Str_of_exn e)
                       | Inr result \<Rightarrow>
                           (case success_response result of
                              Inl e \<Rightarrow> error_response (Str_of_exn e)
                            | Inr resp \<Rightarrow> resp)))
            \<and> (\<forall>key. physical_constant a_ratio c key = map_of (default_constants a_ratio) key)
            \<and> physical_constant a_ratio c ''g'' = Some (JFloat (Fin (981 / 100)))
            \<and> physical_constant a_ratio c ''rho'' = Some (JFloat (Fin 1000))
            \<and> physical_constant a_ratio c ''Cd_orifice'' = Some (JFloat (Fin (61 / 100)))
            \<and> physical_constant a_ratio c ''A_ratio'' = Some (JFloat (Fin a_ratio)))
       \<and> (\<forall>overrides key. physical_constant a_ratio (JObj overrides) key =
            (case map_of overrides key of
               Some v \<Rightarrow> Some v
             | None \<Rightarrow> map_of (default_constants a_ratio) key))"
proof -
  from assms(2,3) have
    g: "g = (case map_of kvs ''graph_params'' of Some v \<Rightarrow> v | None \<Rightarrow> JArr [JStr ''V0'', JStr ''Vp''])"
    and c: "c = (case map_of kvs ''constants'' of Some v \<Rightarrow> v | None \<Rightarrow> JNull)"
    by (simp_all add: parse_input_dict)
  note ap = fluid_calculate_applies_pipeline [OF assms(1,3,4), of _ st]
  show ?thesis
  proof (intro conjI impI allI)
    assume "map_of kvs ''graph_params'' = None"
    with g have l: "py_iter g = Inr [JStr ''V0'', JStr ''Vp'']" by simp
    show "pipeline_calls (snd (fluid_calculate ev req st)) =
              pipeline_calls st @ [(os, ps, [JStr ''V0'', JStr ''Vp''], c)]"
      by (rule ap(2) [OF l])
    show "fst (fluid_calculate ev req st) =
                (case process_experiment_data ev os ps [JStr ''V0'', JStr ''Vp''] c of
                   Inl e \<Rightarrow> error_response (Str_of_exn e)
                 | Inr result \<Rightarrow>
                     (case success_response result of
                        Inl e \<Rightarrow> error_response (Str_of_exn e)
                      | Inr resp \<Rightarrow> resp))"
      by (rule ap(1) [OF l])
  next
    assume "map_of kvs ''constants'' = None"
    with c show "c = JNull" by simp
  next
    fix labels
    assume "map_of kvs ''constants'' = None" and l: "py_iter g = Inr labels"
    with c have n: "c = JNull" by simp
    show "pipeline_calls (snd (fluid_calculate ev req st)) =
                    pipeline_calls st @ [(os, ps, labels, JNull)]"
      using ap(2) [OF l] unfolding n .
    show "fst (fluid_calculate ev req st) =
                      (case process_experiment_data ev os ps labels JNull of
                         Inl e \<Rightarrow> error_response (Str_of_exn e)
                       | Inr result \<Rightarrow>
                           (case success_response result of
                              Inl e \<Rightarrow> error_response (Str_of_exn e)
                            | Inr resp \<Rightarrow> resp))"
      using ap(1) [OF l] unfolding n .
  next
    fix key
    assume "map_of kvs ''constants'' = None"
    with c show "physical_constant a_ratio c key = map_of (default_constants a_ratio) key"
      by (simp add: physical_constant_def)
  next
    assume "map_of kvs ''constants'' = None"
    with c show "physical_constant a_ratio c ''g'' = Some (JFloat (Fin (981 / 100)))"
      by (simp add: physical_constant_def default_constants_def)
  next
    assume "map_of kvs ''constants'' = None"
    with c show "physical_constant a_ratio c ''rho'' = Some (JFloat (Fin 1000))"
      by (simp add: physical_constant_def default_constants_def)
  next
    assume "map_of kvs ''constants'' = None"
    with c show "physical_constant a_ratio c ''Cd_orifice'' = Some (JFloat (Fin (61 / 100)))"
      by (simp add: physical_constant_def default_constants_def)
  next
    assume "map_of kvs ''constants'' = None"
    with c show "physical_constant a_ratio c ''A_ratio'' = Some (JFloat (Fin a_ratio))"
      by (simp add: physical_constant_def default_constants_def)
  next
    fix overrides key
    show "physical_constant a_ratio (JObj overrides) key =
            (case map_of overrides key of
               Some v \<Rightarrow> Some v
             | None \<Rightarrow> map_of (default_constants a_ratio) key)"
      by (simp add: physical_constant_def)
  qed
qed

text \<open>
  A request that carries the two reading lists and nothing else, with a pipeline that
  hands back the labels and the override it was called with.
\<close>

theorem omitted_parameters_use_defaults_witness:
  "map_of [(''orifice_readings'', JArr [JArr [JFloat (Fin 4), JFloat (Fin 4)]]),
           (''pitot_readings'', JArr [JArr [JFloat (Fin 2), JFloat (Fin 2)]])] ''graph_params'' = None
   \<and> map_of [(''orifice_readings'', JArr [JArr [JFloat (Fin 4), JFloat (Fin 4)]]),
             (''pitot_readings'', JArr [JArr [JFloat (Fin 2), JFloat (Fin 2)]])] ''constants'' = None
   \<and> pipeline_calls (snd (fluid_calculate
        \<lparr>float_of_str = (\<lambda>s. None),
         process_experiment_data = (\<lambda>os ps labels c. Inr
           [(''results'', JArr labels), (''mean_cv'', c),
            (''model_calculation'', JStr ''''), (''graph_base64'', JStr ''''),
            (''pdf_base64'', JStr '''')])\<rparr>
        \<lparr>session_user_id = Some 7,
         get_json = Inr (JObj
           [(''orifice_readings'', JArr [JArr [JFloat (Fin 4), JFloat (Fin 4)]]),
            (''pitot_readings'', JArr [JArr [JFloat (Fin 2), JFloat (Fin 2)]])])\<rparr>
        \<lparr>activity_logs = [], calculations = [], pipeline_calls = []\<rparr>))
     = [([(Fin 4, Fin 4)], [(Fin 2, Fin 2)], [JStr ''V0'', JStr ''Vp''], JNull)]
   \<and> fst (fluid_calculate
        \<lparr>float_of_str = (\<lambda>s. None),
         process_experiment_data = (\<lambda>os ps labels c. Inr
           [(''results'', JArr labels), (''mean_cv'', c),
            (''model_calculation'', JStr ''''), (''graph_base64'', JStr ''''),
            (''pdf_base64'', JStr '''')])\<rparr>
        \<lparr>session_user_id = Some 7,
         get_json = Inr (JObj
           [(''orifice_readings'', JArr [JArr [JFloat (Fin 4), JFloat (Fin 4)]]),
            (''pitot_readings'', JArr [JArr [JFloat (Fin 2), JFloat (Fin 2)]])])\<rparr>
        \<lparr>activity_logs = [], calculations = [], pipeline_calls = []\<rparr>)
     = Jsonify [(''success'', Bool_value True),
                (''results'', Json_value (JArr [JStr ''V0'', JStr ''Vp''])),
                (''mean_cv'', Json_value JNull),
                (''model_calculation'', Json_value (JStr '''')),
                (''graph_base64'', Json_value (JStr '''')),
                (''pdf_base64'', Json_value (JStr ''''))] 200
   \<and> physical_constant (1 / 2) JNull ''rho'' = Some (JFloat (Fin 1000))"
proof -
  let ?ev = "\<lparr>float_of_str = (\<lambda>s. None),
         process_experiment_data = (\<lambda>os ps labels c. Inr
           [(''results'', JArr labels), (''mean_cv'', c),
            (''model_calculation'', JStr ''''), (''graph_base64'', JStr ''''),
            (''pdf_base64'', JStr '''')])\<rparr>"
  let ?kvs = "[(''orifice_readings'', JArr [JArr [JFloat (Fin 4), JFloat (Fin 4)]]),
              (''pitot_readings'', JArr [JArr [JFloat (Fin 2), JFloat (Fin 2)]])]"
  let ?req = "\<lparr>session_user_id = Some 7, get_json = Inr (JObj ?kvs)\<rparr>"
  let ?st = "\<lparr>activity_logs = [], calculations = [], pipeline_calls = []\<rparr>"
  have s: "session_user_id ?req = Some 7"
    by simp
  have j: "get_json ?req = Inr (JObj ?kvs)"
    by simp
  have p: "parse_input (get_json ?req)
    = Inr (JArr [JArr [JFloat (Fin 4), JFloat (Fin 4)]],
           JArr [JArr [JFloat (Fin 2), JFloat (Fin 2)]],
           JArr [JStr ''V0'', JStr ''Vp''], JNull)"
    by (simp add: parse_input_def)
  have v: "validate_readings (float_of_str ?ev)
        (JArr [JArr [JFloat (Fin 4), JFloat (Fin 4)]]) (JArr [JArr [JFloat (Fin 2), JFloat (Fin 2)]])
      = Proceed ([(Fin 4, Fin 4)], [(Fin 2, Fin 2)])"
    by (simp add: validate_readings_def convert_readings_def convert_reading_def)
  have g: "map_of ?kvs ''graph_params'' = None"
    by simp
  have k: "map_of ?kvs ''constants'' = None"
    by simp
  note t = omitted_parameters_use_defaults [OF s j p v, of ?st "1 / 2"]
  note tg = t [THEN conjunct1, THEN mp, OF g]
  from tg [THEN conjunct1]
  have calls: "pipeline_calls (snd (fluid_calculate ?ev ?req ?st))
     = [([(Fin 4, Fin 4)], [(Fin 2, Fin 2)], [JStr ''V0'', JStr ''Vp''], JNull)]"
    by simp
  from tg [THEN conjunct2]
  have resp: "fst (fluid_calculate ?ev ?req ?st)
     = Jsonify [(''success'', Bool_value True),
                (''results'', Json_value (JArr [JStr ''V0'', JStr ''Vp''])),
                (''mean_cv'', Json_value JNull),
                (''model_calculation'', Json_value (JStr '''')),
                (''graph_base64'', Json_value (JStr '''')),
                (''pdf_base64'', Json_value (JStr ''''))] 200"
    by (simp add: success_response_def py_item_def)
  note tk = t [THEN conjunct2, THEN conjunct1, THEN mp, OF k]
  from tk [THEN conjunct2, THEN conjunct2, THEN conjunct2, THEN conjunct2, THEN conjunct1]
  have d: "physical_constant (1 / 2) JNull ''rho'' = Some (JFloat (Fin 1000))" .
  from g k calls resp d show ?thesis by (intro conjI)
qed

section \<open>The discharge coefficient estimator\<close>

lemma estimate_points_eq:
  "estimate_points points =
     (map (\<lambda>p. \<lparr>v0 = fst p, vp = snd p, cv = fst p / snd p\<rparr>) (filter (\<lambda>p. snd p \<noteq> 0) points),
      length (filter (\<lambda>p. snd p = 0) points))"
  by (induction points rule: estimate_points.induct) simp_all

lemma length_filter_split:
  "length (filter (\<lambda>p. snd p \<noteq> (0::real)) points) + length (filter (\<lambda>p. snd p = 0) points)
     = length points"
  by (induction points) simp_all

text \<open>
  Claim C1. For every list of calibration velocities in which some point has a pitot
  velocity other than 0, the estimator does not fail; it keeps exactly the points with
  \<open>Vp \<noteq> 0\<close>, in order, each with \<open>cv = V0 / Vp\<close>; it records the number of points
  with \<open>Vp = 0\<close> as the exclusion count (kept and excluded add up to the number of
  points); and \<open>mean_cv\<close> is the sum of the \<open>cv\<close> of the kept points divided by their
  number.
\<close>

theorem mean_cv_over_non_excluded:
  assumes "\<exists>p \<in> set points. snd p \<noteq> 0"
  shows "\<exists>est. estimate_discharge points = Inr est
      \<and> map (\<lambda>q. (v0 q, vp q)) (est_results est) = filter (\<lambda>p. snd p \<noteq> 0) points
      \<and> map cv (est_results est) = map (\<lambda>p. fst p / snd p) (filter (\<lambda>p. snd p \<noteq> 0) points)
      \<and> est_excluded est = length (filter (\<lambda>p. snd p = 0) points)
      \<and> length (est_results est) + est_excluded est = length points
      \<and> est_mean_cv est =
          sum_list (map (\<lambda>p. fst p / snd p) (filter (\<lambda>p. snd p \<noteq> 0) points))
            / real (length (filter (\<lambda>p. snd p \<noteq> 0) points))"
proof -
  define kept where "kept = filter (\<lambda>p. snd p \<noteq> 0) points"
  define pts where "pts = map (\<lambda>p. \<lparr>v0 = fst p, vp = snd p, cv = fst p / snd p\<rparr>) kept"
  define nex where "nex = length (filter (\<lambda>p. snd p = 0) points)"
  define est where "est = \<lparr>est_results = pts,
               est_mean_cv = sum_list (map cv pts) / real (length pts),
               est_excluded = nex\<rparr>"
  from assms have "kept \<noteq> []"
    unfolding kept_def filter_empty_conv by blast
  then have ne: "pts \<noteq> []"
    by (simp add: pts_def)
  have ep: "estimate_points points = (pts, nex)"
    unfolding pts_def kept_def nex_def by (rule estimate_points_eq)
  have e: "estimate_discharge points = Inr est"
    using ne by (simp add: estimate_discharge_def ep est_def)
  have r: "est_results est = pts" and x: "est_excluded est = nex"
    and mean: "est_mean_cv est = sum_list (map cv pts) / real (length pts)"
    by (simp_all add: est_def)
  have m1: "map (\<lambda>q. (v0 q, vp q)) pts = kept"
    by (simp add: pts_def comp_def)
  have m2: "map cv pts = map (\<lambda>p. fst p / snd p) kept"
    by (simp add: pts_def comp_def)
  have len: "length pts = length kept"
    by (simp add: pts_def)
  have total: "length pts + nex = length points"
    unfolding len kept_def nex_def by (rule length_filter_split)
  have "estimate_discharge points = Inr est
      \<and> map (\<lambda>q. (v0 q, vp q)) (est_results est) = kept
      \<and> map cv (est_results est) = map (\<lambda>p. fst p / snd p) kept
      \<and> est_excluded est = nex
      \<and> length (est_results est) + est_excluded est = length points
      \<and> est_mean_cv est = sum_list (map (\<lambda>p. fst p / snd p) kept) / real (length kept)"
    unfolding r x mean m2 len [symmetric]
    using e m1 total by (intro conjI) (simp_all only: m2 len)
  then show ?thesis
    unfolding kept_def nex_def by (rule exI)
qed

text \<open>Three points, the first with a pitot velocity of 0: the mean of 2 and 3.\<close>

theorem mean_cv_over_non_excluded_witness:
  "(\<exists>p \<in> set [(3, 0), (4, 2), (6, 2 :: real)]. snd p \<noteq> (0::real))
   \<and> (\<exists>est. estimate_discharge [(3, 0), (4, 2), (6, 2)] = Inr est
         \<and> map cv (est_results est) = [2, 3]
         \<and> est_excluded est = 1
         \<and> est_mean_cv est = 5 / 2)"
proof -
  have h: "\<exists>p \<in> set [(3, 0), (4, 2), (6, 2 :: real)]. snd p \<noteq> (0::real)"
    by simp
  have k: "filter (\<lambda>p. snd p \<noteq> 0) [(3, 0), (4, 2), (6, 2 :: real)] = [(4, 2), (6, 2)]"
    by simp
  have x: "filter (\<lambda>p. snd p = 0) [(3, 0), (4, 2), (6, 2 :: real)] = [(3, 0)]"
    by simp
  from mean_cv_over_non_excluded [OF h]
  have "\<exists>est. estimate_discharge [(3, 0), (4, 2), (6, 2)] = Inr est
         \<and> map cv (est_results est) = [2, 3]
         \<and> est_excluded est = 1
         \<and> est_mean_cv est = 5 / 2"
    unfolding k x
  proof (elim exE conjE)
    fix est
    assume "estimate_discharge [(3, 0), (4, 2), (6, 2)] = Inr est"
      and "map cv (est_results est) = map (\<lambda>p. fst p / snd p) [(4, 2), (6, 2)]"
      and "est_excluded est = length [(3 :: real, 0 :: real)]"
      and "est_mean_cv est =
          sum_list (map (\<lambda>p. fst p / snd p) [(4, 2), (6, 2)]) / real (length [(4 :: real, 2 :: real), (6, 2)])"
    then have "estimate_discharge [(3, 0), (4, 2), (6, 2)] = Inr est
         \<and> map cv (est_results est) = [2, 3]
         \<and> est_excluded est = 1
         \<and> est_mean_cv est = 5 / 2"
      by simp
    then show ?thesis by (rule exI)
  qed
  with h show ?thesis by (intro conjI)
qed

end
